theory Spec2Isabelle
  imports Complex_Main "HOL-Library.Sublist"
begin

section \<open>JavaScript values used by the application\<close>

text \<open>
  The application is the single React component file \<^verbatim>\<open>src/App.tsx\<close>. Its functions are
  embedded as HOL functions over the following value model.

  \<^item> A JavaScript \<^verbatim>\<open>number\<close> is a \<open>js_number\<close>: a finite value (by its rational value, with
    \<open>-0\<close> identified with \<open>0\<close>), \<open>NaN\<close>, or one of the two infinities. Rounding to binary
    floating point is not modelled.
  \<^item> Numbers that the code uses as ranks and array indices (the argument of \<^verbatim>\<open>ordinal\<close>) are
    integer valued and are modelled by the \<open>int\<close> they denote. On integer-valued numbers
    \<^verbatim>\<open>%\<close> and array indexing are exact, and \<^verbatim>\<open>String\<close> is modelled as ECMAScript defines
    it, with the rounding to 53 significant bits that decides which decimal it prints.
    Every integer of magnitude below \<open>2^53\<close> is a number; a larger integer is one only if
    rounding leaves it unchanged.
  \<^item> A string is a \<open>string\<close> holding the UTF-8 bytes of the JavaScript string.
  \<^item> An optional property (\<^verbatim>\<open>undefined\<close>, or \<^verbatim>\<open>null\<close> where the type allows it) is an
    \<open>option\<close>.
\<close>

datatype js_number = Num rat | NaN | PosInf | NegInf

text \<open>\<^verbatim>\<open>x > 0\<close> on a number: every comparison with \<open>NaN\<close> is false.\<close>

fun gt_zero :: "js_number \<Rightarrow> bool" where
  "gt_zero (Num q) = (0 < q)"
| "gt_zero NaN = False"
| "gt_zero PosInf = True"
| "gt_zero NegInf = False"

text \<open>\<^verbatim>\<open>a === b\<close> on two numbers: \<open>NaN\<close> is not equal to anything, itself included.\<close>

definition strict_eq :: "js_number \<Rightarrow> js_number \<Rightarrow> bool" where
  "strict_eq a b = (a \<noteq> NaN \<and> b \<noteq> NaN \<and> a = b)"

text \<open>
  \<^verbatim>\<open>a || b\<close> where \<open>a\<close> is a string or \<^verbatim>\<open>undefined\<close>: the empty string and
  \<^verbatim>\<open>undefined\<close> are falsy, every other string is truthy. \<open>js_or\<close> is the case where \<open>b\<close> may
  be \<^verbatim>\<open>undefined\<close> too, \<open>str_or\<close> the case where \<open>b\<close> is a string.
\<close>

definition js_or :: "string option \<Rightarrow> string option \<Rightarrow> string option" where
  "js_or a b = (case a of None \<Rightarrow> b | Some x \<Rightarrow> if x = [] then b else a)"

definition str_or :: "string option \<Rightarrow> string \<Rightarrow> string" where
  "str_or a b = (case a of None \<Rightarrow> b | Some x \<Rightarrow> if x = [] then b else x)"

text \<open>
  \<^verbatim>\<open>a % b\<close> on integers: the remainder of the division truncated towards zero, with the sign
  of the dividend. (A zero result of a negative dividend is \<open>-0\<close>, which indexes an array as
  \<open>0\<close> does.)
\<close>

definition js_rem :: "int \<Rightarrow> int \<Rightarrow> int" where
  "js_rem a b = (if a < 0 then - ((- a) mod \<bar>b\<bar>) else a mod \<bar>b\<bar>)"

text \<open>\<^verbatim>\<open>xs[i]\<close> for an integer \<open>i\<close>: \<^verbatim>\<open>undefined\<close> outside \<open>0 .. length - 1\<close>.\<close>

definition js_index :: "'a list \<Rightarrow> int \<Rightarrow> 'a option" where
  "js_index xs i = (if 0 \<le> i \<and> i < int (length xs) then Some (xs ! nat i) else None)"

text \<open>The decimal digits of a natural number.\<close>

definition digit_char :: "nat \<Rightarrow> char" where
  "digit_char d = ''0123456789'' ! d"

fun decimal_digits :: "nat \<Rightarrow> string" where
  "decimal_digits n =
     (if n < 10 then [digit_char n] else decimal_digits (n div 10) @ [digit_char (n mod 10)])"

declare decimal_digits.simps [simp del]

text \<open>
  The number nearest to the natural number \<open>m\<close>: \<open>m\<close> itself below \<open>2^53\<close>, and otherwise
  \<open>m\<close> rounded to 53 significant bits, a tie going to the even significand.
  \<open>2 ^ ulp_exponent m\<close> is the distance between neighbouring numbers at \<open>m\<close>. (Overflow to
  \<^verbatim>\<open>Infinity\<close>, from \<open>2^1024\<close> on, is not modelled.)
\<close>

function ulp_exponent :: "nat \<Rightarrow> nat" where
  "ulp_exponent m = (if m < 2 ^ 53 then 0 else Suc (ulp_exponent (m div 2)))"
  by pat_completeness auto
termination
  by (relation "measure (\<lambda>m. m)") auto

declare ulp_exponent.simps [simp del]

definition round_to_double :: "nat \<Rightarrow> nat" where
  "round_to_double m =
     (let u = 2 ^ ulp_exponent m; q = m div u; r = m mod u
      in if 2 * r < u \<or> (2 * r = u \<and> even q) then q * u else (q + 1) * u)"

text \<open>
  \<^verbatim>\<open>String(x)\<close> for an integer-valued number \<open>x \<ge> 0\<close> (ECMAScript, Number::toString): among
  the decimals \<open>s * 10^e\<close> that convert to \<open>x\<close>, take one with the fewest digits \<open>s\<close>, and
  of those the closest to \<open>x\<close> (the even \<open>s\<close> on a tie). With \<open>p\<close> a power of ten, the
  multiples of \<open>p\<close> next to \<open>x\<close> are \<open>c * p\<close> and \<open>(c + 1) * p\<close> for \<open>c = x div p\<close>;
  \<open>shortest_from\<close> tries the powers of ten from the largest one down, so that the first
  that succeeds has the fewest digits. (For an integer that is no number, none succeeds and
  the integer itself is kept.)
\<close>

definition reads_back :: "nat \<Rightarrow> nat \<Rightarrow> nat \<Rightarrow> bool" where
  "reads_back x p c = (round_to_double (c * p) = x \<or> round_to_double ((c + 1) * p) = x)"

definition closest_decimal :: "nat \<Rightarrow> nat \<Rightarrow> nat \<Rightarrow> nat" where
  "closest_decimal x p c =
     (let lo = c * p; hi = (c + 1) * p
      in if round_to_double lo = x \<and> round_to_double hi = x
         then (if x - lo < hi - x then lo
               else if hi - x < x - lo then hi
               else if even c then lo else hi)
         else if round_to_double lo = x then lo else hi)"

function shortest_from :: "nat \<Rightarrow> nat \<Rightarrow> nat" where
  "shortest_from x p =
     (if p = 0 then x
      else if reads_back x p (x div p) then closest_decimal x p (x div p)
      else shortest_from x (p div 10))"
  by pat_completeness auto
termination
  by (relation "measure (\<lambda>(x, p). p)") auto

declare shortest_from.simps [simp del]

definition shortest_decimal :: "nat \<Rightarrow> nat" where
  "shortest_decimal x = shortest_from x (10 ^ (length (decimal_digits x) - 1))"

text \<open>
  The decimal found is printed with all its digits if it has at most 21 of them, and
  otherwise as its digits without the trailing zeros, a point after the first, and the
  exponent. A negative number is printed as a minus sign and its absolute value.
\<close>

function strip_trailing_zeros :: "nat \<Rightarrow> nat" where
  "strip_trailing_zeros v =
     (if v = 0 then 0 else if v mod 10 = 0 then strip_trailing_zeros (v div 10) else v)"
  by pat_completeness auto
termination
  by (relation "measure (\<lambda>v. v)") auto

declare strip_trailing_zeros.simps [simp del]

definition Number_toString :: "nat \<Rightarrow> string" where
  "Number_toString x =
     (let v = shortest_decimal x; n = length (decimal_digits v)
      in if n \<le> 21 then decimal_digits v
         else (let ds = decimal_digits (strip_trailing_zeros v)
               in (if length ds = 1 then ds else hd ds # CHR ''.'' # tl ds)
                  @ ''e+'' @ decimal_digits (n - 1)))"

definition String_number :: "int \<Rightarrow> string" where
  "String_number n =
     (if n < 0 then CHR ''-'' # Number_toString (nat (- n)) else Number_toString (nat n))"

text \<open>\<^verbatim>\<open>a + b\<close> where \<open>a\<close> is a string and \<open>b\<close> a string or \<^verbatim>\<open>undefined\<close>.\<close>

definition string_concat :: "string \<Rightarrow> string option \<Rightarrow> string" where
  "string_concat a b = a @ (case b of None \<Rightarrow> ''undefined'' | Some t \<Rightarrow> t)"

section \<open>The ordinal helper\<close>

text \<open>
  \<^verbatim>\<open>
  function ordinal(n: number): string {
    const s = ["th", "st", "nd", "rd"] as const;
    const v = n % 100;
    return String(n) + (s[(v - 20) % 10] || s[v] || s[0]);
  }
  \<close>
  The earlier JavaScript version of the file returns \<^verbatim>\<open>n + (...)\<close>, which converts \<open>n\<close> to
  a string in the same way.
\<close>

definition ordinal :: "int \<Rightarrow> string" where
  "ordinal n =
     (let s = [''th'', ''st'', ''nd'', ''rd''];
          v = js_rem n 100
      in string_concat (String_number n)
           (js_or (js_or (js_index s (js_rem (v - 20) 10)) (js_index s v)) (js_index s 0)))"

text \<open>
  The decimal string of an integer \<open>n \<ge> 1\<close> and the suffix, as the specification words
  them, for comparison with the code.
\<close>

definition decimal_string :: "int \<Rightarrow> string" where
  "decimal_string n = decimal_digits (nat n)"

definition ordinal_suffix_spec :: "int \<Rightarrow> string" where
  "ordinal_suffix_spec n =
     (if n mod 10 = 1 \<and> \<not> (11 \<le> n mod 100 \<and> n mod 100 \<le> 13) then ''st''
      else if n mod 10 = 2 \<and> n mod 100 \<noteq> 12 then ''nd''
      else if n mod 10 = 3 \<and> n mod 100 \<noteq> 13 then ''rd''
      else ''th'')"

text \<open>The suffix expression of \<open>ordinal\<close> on its own, as a function of \<open>v\<close>.\<close>

definition suffix_at :: "int \<Rightarrow> string option" where
  "suffix_at v =
     (let s = [''th'', ''st'', ''nd'', ''rd'']
      in js_or (js_or (js_index s (js_rem (v - 20) 10)) (js_index s v)) (js_index s 0))"

section \<open>String.prototype.trim\<close>

text \<open>
  \<^verbatim>\<open>s.trim()\<close> removes the leading and trailing white space and line terminators of
  ECMAScript: U+0009 to U+000D, U+0020, U+00A0, U+1680, U+2000 to U+200A, U+2028, U+2029,
  U+202F, U+205F, U+3000 and U+FEFF, listed here by their UTF-8 encodings.
\<close>

definition white_space :: "string list" where
  "white_space =
     [[CHR 0x09], [CHR 0x0A], [CHR 0x0B], [CHR 0x0C], [CHR 0x0D], [CHR 0x20],
      [CHR 0xC2, CHR 0xA0],
      [CHR 0xE1, CHR 0x9A, CHR 0x80],
      [CHR 0xE2, CHR 0x80, CHR 0x80], [CHR 0xE2, CHR 0x80, CHR 0x81],
      [CHR 0xE2, CHR 0x80, CHR 0x82], [CHR 0xE2, CHR 0x80, CHR 0x83],
      [CHR 0xE2, CHR 0x80, CHR 0x84], [CHR 0xE2, CHR 0x80, CHR 0x85],
      [CHR 0xE2, CHR 0x80, CHR 0x86], [CHR 0xE2, CHR 0x80, CHR 0x87],
      [CHR 0xE2, CHR 0x80, CHR 0x88], [CHR 0xE2, CHR 0x80, CHR 0x89],
      [CHR 0xE2, CHR 0x80, CHR 0x8A],
      [CHR 0xE2, CHR 0x80, CHR 0xA8], [CHR 0xE2, CHR 0x80, CHR 0xA9],
      [CHR 0xE2, CHR 0x80, CHR 0xAF],
      [CHR 0xE2, CHR 0x81, CHR 0x9F],
      [CHR 0xE3, CHR 0x80, CHR 0x80],
      [CHR 0xEF, CHR 0xBB, CHR 0xBF]]"

text \<open>Removes, from the front of \<open>s\<close>, every occurrence of one of the sequences \<open>ws\<close>.\<close>

function strip_leading :: "string list \<Rightarrow> string \<Rightarrow> string" where
  "strip_leading ws s =
     (case find (\<lambda>w. w \<noteq> [] \<and> prefix w s) ws of
        None \<Rightarrow> s
      | Some w \<Rightarrow> strip_leading ws (drop (length w) s))"
  by pat_completeness auto
termination
proof (relation "measure (\<lambda>(ws, s). length s)")
  show "wf (measure (\<lambda>(ws, s). length s))" by simp
next
  fix ws :: "string list" and s w :: string
  assume "find (\<lambda>w. w \<noteq> [] \<and> prefix w s) ws = Some w"
  then have "w \<noteq> [] \<and> prefix w s" by (auto simp: find_Some_iff)
  then have "0 < length w" "length w \<le> length s" by (auto simp: prefix_length_le)
  then have "length s - length w < length s" by arith
  then show "((ws, drop (length w) s), (ws, s)) \<in> measure (\<lambda>(ws, s). length s)"
    by simp
qed

declare strip_leading.simps [simp del]

definition js_trim :: "string \<Rightarrow> string" where
  "js_trim s = rev (strip_leading (map rev white_space) (rev (strip_leading white_space s)))"

text \<open>The strings that are sequences of elements of \<open>ws\<close>, one after the other.\<close>

inductive run_of :: "string list \<Rightarrow> string \<Rightarrow> bool" for ws :: "string list" where
  run_empty: "run_of ws []"
| run_step: "w \<in> set ws \<Longrightarrow> run_of ws s \<Longrightarrow> run_of ws (w @ s)"

section \<open>Data model\<close>

text \<open>
  The query parameters: \<^verbatim>\<open>Object.fromEntries(new URLSearchParams(...).entries())\<close>, read once.
  A key that is absent reads as \<^verbatim>\<open>undefined\<close>.
\<close>

type_synonym query_params = "string \<rightharpoonup> string"

text \<open>
  \<^verbatim>\<open>
  export type LeaderboardRow = {
    id?: number; name: string; age?: number | null; gender?: string | null;
    country: string; time_seconds: number; created_at?: string; t_qr?: string;
  };
  export type MeRow = LeaderboardRow & { rank_country?: number; rank_global?: number; };
  \<close>
  The field \<^verbatim>\<open>id\<close> is named \<open>row_id\<close> here.
\<close>

record LeaderboardRow =
  row_id :: "int option"
  name :: string
  age :: "js_number option"
  gender :: "string option"
  country :: string
  time_seconds :: js_number
  created_at :: "string option"
  t_qr :: "string option"

record MeRow = LeaderboardRow +
  rank_country :: "int option"
  rank_global :: "int option"

datatype step = Form | Leaderboards

text \<open>The three inputs of the form; \<^verbatim>\<open>form.name\<close> is \<open>form_name\<close>, and so on.\<close>

record form_state =
  form_name :: string
  form_age :: string
  form_gender :: string

text \<open>The state variables of \<^verbatim>\<open>App\<close>, one field for each \<^verbatim>\<open>useState\<close>.\<close>

record app_state =
  step :: step
  submitting :: bool
  error :: string
  rankPreview :: "int option"
  form :: form_state
  me :: "MeRow option"
  lbCountry :: "LeaderboardRow list"
  lbGlobal :: "LeaderboardRow list"

definition initial_state :: app_state where
  "initial_state =
     \<lparr>step = Form, submitting = False, error = '''', rankPreview = None,
      form = \<lparr>form_name = '''', form_age = '''', form_gender = ''''\<rparr>,
      me = None, lbCountry = [], lbGlobal = []\<rparr>"

text \<open>
  Functions of the JavaScript runtime whose results depend on floating point arithmetic, the
  locale or the clock are parameters of the model:
  \<^item> \<open>rt_Number s\<close> is \<^verbatim>\<open>Number(s)\<close> for a string \<open>s\<close>;
  \<^item> \<open>rt_toFixed2 x\<close> is \<^verbatim>\<open>Number(x).toFixed(2)\<close>;
  \<^item> \<open>rt_toLocaleDateString d\<close> is \<^verbatim>\<open>new Date(d).toLocaleDateString()\<close>, where \<open>d\<close> is a
    string or the value of \<^verbatim>\<open>Date.now()\<close>.
  Every theorem below holds for every such runtime.
\<close>

datatype date_arg = DateString string | DateNow

record runtime =
  rt_Number :: "string \<Rightarrow> js_number"
  rt_toFixed2 :: "js_number \<Rightarrow> string"
  rt_toLocaleDateString :: "date_arg \<Rightarrow> string"

definition API_BASE :: string where
  "API_BASE = ''https://lfmgpiaokicvdejzxxxr.supabase.co/functions/v1/api''"

section \<open>Values derived from the query parameters\<close>

text \<open>
  \<^verbatim>\<open>
  const countryCode = qp.country || "";
  const countryName = qp.countryName || qp.country || "";
  const timeSec = useMemo(() => Number(qp.time || 0), [qp.time]);
  \<close>
  \<^verbatim>\<open>qp.time || 0\<close> is the number \<open>0\<close> when \<^verbatim>\<open>qp.time\<close> is absent or empty, and \<^verbatim>\<open>Number\<close>
  leaves a number as it is.
\<close>

definition countryCode :: "query_params \<Rightarrow> string" where
  "countryCode qp = str_or (qp ''country'') ''''"

definition countryName :: "query_params \<Rightarrow> string" where
  "countryName qp = str_or (js_or (qp ''countryName'') (qp ''country'')) ''''"

definition timeSec :: "runtime \<Rightarrow> query_params \<Rightarrow> js_number" where
  "timeSec rt qp =
     (case qp ''time'' of
        None \<Rightarrow> Num 0
      | Some t \<Rightarrow> if t = [] then Num 0 else rt_Number rt t)"

section \<open>Requests\<close>

text \<open>
  A JavaScript value of the kinds the payload holds, and a JSON document.
  \<open>SerializeJSONProperty\<close> is what \<^verbatim>\<open>JSON.stringify\<close> does with a property value: a property
  that is \<^verbatim>\<open>undefined\<close> is left out, and a number that is not finite is written
  \<^verbatim>\<open>null\<close>.
\<close>

datatype js_value = VUndefined | VNull | VString string | VNumber js_number

datatype json = JNull | JNumber rat | JString string | JObject "(string \<times> json) list"

fun SerializeJSONProperty :: "js_value \<Rightarrow> json option" where
  "SerializeJSONProperty VUndefined = None"
| "SerializeJSONProperty VNull = Some JNull"
| "SerializeJSONProperty (VString s) = Some (JString s)"
| "SerializeJSONProperty (VNumber (Num q)) = Some (JNumber q)"
| "SerializeJSONProperty (VNumber NaN) = Some JNull"
| "SerializeJSONProperty (VNumber PosInf) = Some JNull"
| "SerializeJSONProperty (VNumber NegInf) = Some JNull"

fun JSON_properties :: "(string \<times> js_value) list \<Rightarrow> (string \<times> json) list" where
  "JSON_properties [] = []"
| "JSON_properties ((k, v) # kvs) =
     (case SerializeJSONProperty v of
        None \<Rightarrow> JSON_properties kvs
      | Some j \<Rightarrow> (k, j) # JSON_properties kvs)"

definition JSON_stringify :: "(string \<times> js_value) list \<Rightarrow> json" where
  "JSON_stringify obj = JObject (JSON_properties obj)"

text \<open>
  A request: the URL without its query string, the query parameters before
  \<^verbatim>\<open>encodeURIComponent\<close>, the HTTP verb, the headers and the body.
\<close>

record http_request =
  req_url :: string
  req_query :: "(string \<times> js_value) list"
  req_verb :: string
  req_headers :: "(string \<times> string) list"
  req_body :: "json option"

subsection \<open>The rank preview effect\<close>

text \<open>
  \<^verbatim>\<open>
  const url = `${API_BASE}/rank_preview?country=${encodeURIComponent(countryCode)}&time=${encodeURIComponent(timeSec)}`;
  const res = await fetch(url);
  ...
  if (countryCode && timeSec > 0) run();
  \<close>
  The effect issues the request of \<^verbatim>\<open>run\<close> or none.
\<close>

definition rank_preview_effect :: "runtime \<Rightarrow> query_params \<Rightarrow> http_request option" where
  "rank_preview_effect rt qp =
     (if countryCode qp \<noteq> [] \<and> gt_zero (timeSec rt qp)
      then Some \<lparr>req_url = API_BASE @ ''/rank_preview'',
                  req_query = [(''country'', VString (countryCode qp)),
                               (''time'', VNumber (timeSec rt qp))],
                  req_verb = ''GET'', req_headers = [], req_body = None\<rparr>
      else None)"

subsection \<open>The registration payload\<close>

text \<open>
  \<^verbatim>\<open>
  const payload = {
    event: qp.event, device: qp.device, country: qp.country, time: qp.time,
    t: qp.t, nonce: qp.nonce, sig: qp.sig,
    name: form.name?.trim(),
    age: form.age ? Number(form.age) : null,
    gender: form.gender || null,
  };
  const res = await fetch(`${API_BASE}/register`, {
    method: "POST",
    headers: { "Content-Type": "application/json" },
    body: JSON.stringify(payload),
  });
  \<close>
\<close>

definition param_value :: "query_params \<Rightarrow> string \<Rightarrow> js_value" where
  "param_value qp k = (case qp k of None \<Rightarrow> VUndefined | Some s \<Rightarrow> VString s)"

definition payload :: "runtime \<Rightarrow> query_params \<Rightarrow> form_state \<Rightarrow> (string \<times> js_value) list" where
  "payload rt qp f =
     [(''event'', param_value qp ''event''),
      (''device'', param_value qp ''device''),
      (''country'', param_value qp ''country''),
      (''time'', param_value qp ''time''),
      (''t'', param_value qp ''t''),
      (''nonce'', param_value qp ''nonce''),
      (''sig'', param_value qp ''sig''),
      (''name'', VString (js_trim (form_name f))),
      (''age'', if form_age f \<noteq> [] then VNumber (rt_Number rt (form_age f)) else VNull),
      (''gender'', if form_gender f \<noteq> [] then VString (form_gender f) else VNull)]"

definition register_request :: "runtime \<Rightarrow> query_params \<Rightarrow> form_state \<Rightarrow> http_request" where
  "register_request rt qp f =
     \<lparr>req_url = API_BASE @ ''/register'', req_query = [], req_verb = ''POST'',
      req_headers = [(''Content-Type'', ''application/json'')],
      req_body = Some (JSON_stringify (payload rt qp f))\<rparr>"

text \<open>The value of a property of a JSON object (of the first one under that key).\<close>

fun json_field :: "json \<Rightarrow> string \<Rightarrow> json option" where
  "json_field (JObject kvs) k = map_of kvs k"
| "json_field _ k = None"

definition body_field :: "http_request \<Rightarrow> string \<Rightarrow> json option" where
  "body_field req k = (case req_body req of None \<Rightarrow> None | Some j \<Rightarrow> json_field j k)"

section \<open>The submit handler\<close>

text \<open>
  A thrown \<^verbatim>\<open>Error\<close> with its \<^verbatim>\<open>name\<close> and \<^verbatim>\<open>message\<close>. \<open>Error_toString\<close> is
  \<^verbatim>\<open>String(err)\<close>, and \<open>error_text\<close> is \<^verbatim>\<open>err?.message || String(err)\<close>.
\<close>

datatype js_error = JsError (err_name: string) (err_message: string)

definition Error_toString :: "js_error \<Rightarrow> string" where
  "Error_toString e =
     (if err_name e = [] then err_message e
      else if err_message e = [] then err_name e
      else err_name e @ '': '' @ err_message e)"

definition error_text :: "js_error \<Rightarrow> string" where
  "error_text e = str_or (Some (err_message e)) (Error_toString e)"

text \<open>
  What the network gives back. \<^verbatim>\<open>fetch\<close> rejects with an error or resolves to a response;
  of a response the handler reads \<^verbatim>\<open>res.ok\<close> and then either \<^verbatim>\<open>res.text()\<close> or
  \<^verbatim>\<open>res.json()\<close>, each of which can reject. A body that parses is \<open>DataObject\<close> with the
  three properties the handler reads (absent ones are \<open>None\<close>), or \<open>DataNull e\<close> for the body
  \<^verbatim>\<open>null\<close>, on which reading \<^verbatim>\<open>data.me\<close> throws the \<^verbatim>\<open>TypeError\<close> \<open>e\<close>.
\<close>

datatype register_data =
    DataNull js_error
  | DataObject "MeRow option" "LeaderboardRow list option" "LeaderboardRow list option"

record response =
  res_ok :: bool
  res_text :: "js_error + string"
  res_json :: "js_error + register_data"

datatype fetch_result = Rejected js_error | Resolved response

text \<open>
  \<^verbatim>\<open>
  async function onSubmit(e) {
    e.preventDefault();
    setSubmitting(true);
    setError("");
    try {
      const payload = ...;
      const res = await fetch(...);
      if (!res.ok) {
        const msg = await res.text();
        throw new Error(msg || "Failed to register");
      }
      const data = await res.json();
      setMe(data.me);
      setLbCountry(data.leaderboard_country || []);
      setLbGlobal(data.leaderboard_global || []);
      setStep("leaderboards");
    } catch (err: any) {
      setError(err?.message || String(err));
    } finally {
      setSubmitting(false);
    }
  }
  \<close>
  \<open>submit_started\<close> is the state while the request is in flight. \<open>try_block\<close> runs the body of
  \<^verbatim>\<open>try\<close> after the request has returned, one state update after the other, and gives the
  error thrown, if any, with the state reached when it was thrown.
\<close>

definition submit_started :: "app_state \<Rightarrow> app_state" where
  "submit_started s = (s\<lparr>submitting := True\<rparr>)\<lparr>error := ''''\<rparr>"

definition rows_or_empty :: "'a list option \<Rightarrow> 'a list" where
  "rows_or_empty rows = (case rows of None \<Rightarrow> [] | Some xs \<Rightarrow> xs)"

definition try_block :: "fetch_result \<Rightarrow> app_state \<Rightarrow> js_error option \<times> app_state" where
  "try_block r s =
     (case r of
        Rejected e \<Rightarrow> (Some e, s)
      | Resolved res \<Rightarrow>
          if \<not> res_ok res then
            (case res_text res of
               Inl e \<Rightarrow> (Some e, s)
             | Inr msg \<Rightarrow> (Some (JsError ''Error'' (str_or (Some msg) ''Failed to register'')), s))
          else
            (case res_json res of
               Inl e \<Rightarrow> (Some e, s)
             | Inr (DataNull e) \<Rightarrow> (Some e, s)
             | Inr (DataObject m lc lg) \<Rightarrow>
                 (let s1 = s\<lparr>me := m\<rparr>;
                      s2 = s1\<lparr>lbCountry := rows_or_empty lc\<rparr>;
                      s3 = s2\<lparr>lbGlobal := rows_or_empty lg\<rparr>;
                      s4 = s3\<lparr>step := Leaderboards\<rparr>
                  in (None, s4))))"

definition onSubmit ::
  "runtime \<Rightarrow> query_params \<Rightarrow> (http_request \<Rightarrow> fetch_result) \<Rightarrow> app_state \<Rightarrow> app_state" where
  "onSubmit rt qp net s =
     (let (thrown, s1) = try_block (net (register_request rt qp (form s))) (submit_started s);
          s2 = (case thrown of None \<Rightarrow> s1 | Some e \<Rightarrow> s1\<lparr>error := error_text e\<rparr>)
      in s2\<lparr>submitting := False\<rparr>)"

text \<open>The registration results and the step of \<open>s'\<close> are those of \<open>s\<close>.\<close>

definition results_kept :: "app_state \<Rightarrow> app_state \<Rightarrow> bool" where
  "results_kept s s' =
     (me s' = me s \<and> lbCountry s' = lbCountry s \<and> lbGlobal s' = lbGlobal s \<and> step s' = step s)"

section \<open>Rendering\<close>

text \<open>The characters of the source outside ASCII, in UTF-8: the em dash and the ellipsis.\<close>

definition em_dash :: string where
  "em_dash = [CHR 0xE2, CHR 0x80, CHR 0x94]"

definition ellipsis :: string where
  "ellipsis = [CHR 0xE2, CHR 0x80, CHR 0xA6]"

subsection \<open>Hero\<close>

text \<open>
  \<^verbatim>\<open>
  <Stat label="Your Time" value={`${Number(time).toFixed(2)} sec`} />
  <Stat label="Location" value={countryName || "-"} />
  <Stat label="Date & Time" value={localDT || "-"} />
  {typeof rankPreview === "number" && (<div>Estimated rank: {ordinal(rankPreview)}</div>)}
  \<close>
  (the two dashes are em dashes in the source). A stat is its label with its value.
\<close>

record hero =
  hero_stats :: "(string \<times> string) list"
  hero_estimated_rank :: "string option"

definition Hero :: "runtime \<Rightarrow> js_number \<Rightarrow> string option \<Rightarrow> string option \<Rightarrow> int option \<Rightarrow> hero" where
  "Hero rt time cname localDT rp =
     \<lparr>hero_stats =
        [(''Your Time'', rt_toFixed2 rt time @ '' sec''),
         (''Location'', str_or cname em_dash),
         (''Date & Time'', str_or localDT em_dash)],
      hero_estimated_rank =
        (case rp of None \<Rightarrow> None | Some r \<Rightarrow> Some (''Estimated rank: '' @ ordinal r))\<rparr>"

subsection \<open>Table\<close>

text \<open>
  \<^verbatim>\<open>
  {rows?.map((r, idx) => {
    const isYou = !!highlight && highlight.name === r.name
      && highlight.time_seconds === r.time_seconds && highlight.country === r.country;
    return (
      <tr key={r.id ?? `${r.country}-${idx}`} className={isYou ? "bg-lime-500/10" : ""}>
        <td>{idx + 1}</td>
        <td>{Number(r.time_seconds).toFixed(2)}</td>
        <td>{r.name}</td>
        <td>{r.age ?? ""}</td>
        <td>{r.gender ?? ""}</td>
        <td>{r.country}</td>
        <td>{new Date((r.created_at ?? r.t_qr) ?? Date.now()).toLocaleDateString()}</td>
      </tr>);
  })}
  \<close>
\<close>

definition isYou :: "'a LeaderboardRow_scheme option \<Rightarrow> 'b LeaderboardRow_scheme \<Rightarrow> bool" where
  "isYou highlight r =
     (case highlight of
        None \<Rightarrow> False
      | Some h \<Rightarrow>
          name h = name r \<and> strict_eq (time_seconds h) (time_seconds r) \<and> country h = country r)"

datatype cell = NumberCell js_number | TextCell string

record table_row =
  tr_key :: "int + string"
  tr_className :: string
  td_index :: nat
  td_time :: string
  td_name :: string
  td_age :: cell
  td_gender :: string
  td_country :: string
  td_date :: string

definition table_row_of ::
  "runtime \<Rightarrow> 'a LeaderboardRow_scheme option \<Rightarrow> 'b LeaderboardRow_scheme \<Rightarrow> nat \<Rightarrow> table_row" where
  "table_row_of rt highlight r idx =
     \<lparr>tr_key = (case row_id r of
                  Some i \<Rightarrow> Inl i
                | None \<Rightarrow> Inr (country r @ ''-'' @ String_number (int idx))),
      tr_className = (if isYou highlight r then ''bg-lime-500/10'' else ''''),
      td_index = idx + 1,
      td_time = rt_toFixed2 rt (time_seconds r),
      td_name = name r,
      td_age = (case age r of None \<Rightarrow> TextCell '''' | Some a \<Rightarrow> NumberCell a),
      td_gender = (case gender r of None \<Rightarrow> '''' | Some g \<Rightarrow> g),
      td_country = country r,
      td_date = rt_toLocaleDateString rt
        (case created_at r of
           Some c \<Rightarrow> DateString c
         | None \<Rightarrow> (case t_qr r of Some t \<Rightarrow> DateString t | None \<Rightarrow> DateNow))\<rparr>"

text \<open>\<^verbatim>\<open>xs.map((x, idx) => f(x, idx))\<close>, as a loop over the array from index \<open>i\<close> on.\<close>

primrec map_from :: "nat \<Rightarrow> ('a \<Rightarrow> nat \<Rightarrow> 'b) \<Rightarrow> 'a list \<Rightarrow> 'b list" where
  "map_from i f [] = []"
| "map_from i f (x # xs) = f x i # map_from (Suc i) f xs"

definition js_map :: "('a \<Rightarrow> nat \<Rightarrow> 'b) \<Rightarrow> 'a list \<Rightarrow> 'b list" where
  "js_map f xs = map_from 0 f xs"

record table =
  tbl_title :: string
  tbl_rows :: "table_row list"

definition Table ::
  "runtime \<Rightarrow> string \<Rightarrow> 'b LeaderboardRow_scheme list \<Rightarrow> 'a LeaderboardRow_scheme option \<Rightarrow> table" where
  "Table rt title rows highlight =
     \<lparr>tbl_title = title, tbl_rows = js_map (table_row_of rt highlight) rows\<rparr>"

text \<open>A table row is highlighted when it carries the class of the current user's row.\<close>

definition highlighted :: "table_row \<Rightarrow> bool" where
  "highlighted tr = (tr_className tr = ''bg-lime-500/10'')"

subsection \<open>App\<close>

text \<open>
  \<^verbatim>\<open>
  {me?.rank_country && (
    <p>Your country rank: <span>{ordinal(me.rank_country)}</span></p>)}
  {me?.rank_global && (
    <p>Global rank: <span>{ordinal(me.rank_global)}</span></p>)}
  \<close>
  \<^verbatim>\<open>a && b\<close> is \<open>a\<close> when \<open>a\<close> is falsy. React renders nothing for \<^verbatim>\<open>undefined\<close> and
  renders a number as its text, so a rank of \<open>0\<close> leaves the text \<open>0\<close> and no line.
\<close>

datatype child = Nothing | NumberText int | RankLine string string

definition rank_line :: "string \<Rightarrow> int option \<Rightarrow> child" where
  "rank_line label r =
     (case r of
        None \<Rightarrow> Nothing
      | Some n \<Rightarrow> if n = 0 then NumberText n else RankLine label (ordinal n))"

definition me_rank_country :: "MeRow option \<Rightarrow> int option" where
  "me_rank_country m = (case m of None \<Rightarrow> None | Some r \<Rightarrow> rank_country r)"

definition me_rank_global :: "MeRow option \<Rightarrow> int option" where
  "me_rank_global m = (case m of None \<Rightarrow> None | Some r \<Rightarrow> rank_global r)"

text \<open>
  What \<^verbatim>\<open>App\<close> renders: in the step \<^verbatim>\<open>form\<close> the hero, the error line
  (\<^verbatim>\<open>{error && <div>{error}</div>}\<close>) and the submit button
  (\<^verbatim>\<open>disabled={submitting}\<close>, with its label); in the step \<^verbatim>\<open>leaderboards\<close> the two rank
  lines and the two tables.
\<close>

record form_view =
  fv_hero :: hero
  fv_error :: "string option"
  fv_submit_disabled :: bool
  fv_submit_label :: string

record leaderboards_view =
  lv_country_rank :: child
  lv_global_rank :: child
  lv_country_table :: table
  lv_global_table :: table

datatype view = FormView form_view | LeaderboardsView leaderboards_view

definition App_view :: "runtime \<Rightarrow> query_params \<Rightarrow> app_state \<Rightarrow> view" where
  "App_view rt qp s =
     (case step s of
        Form \<Rightarrow>
          FormView
            \<lparr>fv_hero = Hero rt (timeSec rt qp) (Some (countryName qp)) (qp ''localDT'')
                         (rankPreview s),
             fv_error = (if error s \<noteq> [] then Some (error s) else None),
             fv_submit_disabled = submitting s,
             fv_submit_label =
               (if submitting s then ''Submitting'' @ ellipsis else ''Submit result'')\<rparr>
      | Leaderboards \<Rightarrow>
          LeaderboardsView
            \<lparr>lv_country_rank = rank_line ''Your country rank: '' (me_rank_country (me s)),
             lv_global_rank = rank_line ''Global rank: '' (me_rank_global (me s)),
             lv_country_table =
               Table rt (''Top 100 '' @ em_dash @ '' '' @ countryName qp) (lbCountry s) (me s),
             lv_global_table =
               Table rt (''Top 20 '' @ em_dash @ '' Global'') (lbGlobal s) (me s)\<rparr>)"

section \<open>A runtime for concrete inputs\<close>

text \<open>
  The theorems hold for every runtime. To evaluate the model at concrete inputs, this runtime
  reads the empty string as \<open>0\<close> and a string of ASCII decimal digits as the number it
  denotes, as \<^verbatim>\<open>Number\<close> does (exactly, for up to fifteen digits). Every other string it
  takes as not numeric, which is what \<^verbatim>\<open>Number\<close> gives for the string \<open>abc\<close> of the examples
  below; it is not meant to agree with \<^verbatim>\<open>Number\<close> on other numeric literals. Its two
  formatting functions are placeholders.
\<close>

definition is_digit :: "char \<Rightarrow> bool" where
  "is_digit c = (48 \<le> (of_char c :: nat) \<and> (of_char c :: nat) \<le> 57)"

definition digits_value :: "string \<Rightarrow> nat" where
  "digits_value s = foldl (\<lambda>acc c. 10 * acc + (of_char c - 48)) 0 s"

definition sample_Number :: "string \<Rightarrow> js_number" where
  "sample_Number s =
     (if s = [] then Num 0
      else if list_all is_digit s then Num (of_nat (digits_value s))
      else NaN)"

definition sample_runtime :: runtime where
  "sample_runtime =
     \<lparr>rt_Number = sample_Number, rt_toFixed2 = (\<lambda>x. ''?''),
      rt_toLocaleDateString = (\<lambda>d. ''?'')\<rparr>"

text \<open>A \<open>MeRow\<close> and three rows, two of which agree with it in the three compared fields.\<close>

definition example_me :: MeRow where
  "example_me =
     \<lparr>row_id = Some 1, name = ''Ann'', age = Some (Num 30), gender = None, country = ''US'',
      time_seconds = Num (49 / 5), created_at = None, t_qr = None,
      rank_country = Some 3, rank_global = Some 0\<rparr>"

definition example_rows :: "LeaderboardRow list" where
  "example_rows =
     [\<lparr>row_id = Some 1, name = ''Ann'', age = Some (Num 30), gender = None, country = ''US'',
       time_seconds = Num (49 / 5), created_at = None, t_qr = None\<rparr>,
      \<lparr>row_id = Some 2, name = ''Bob'', age = None, gender = Some ''male'', country = ''US'',
       time_seconds = Num (101 / 10), created_at = None, t_qr = None\<rparr>,
      \<lparr>row_id = None, name = ''Ann'', age = None, gender = None, country = ''US'',
       time_seconds = Num (49 / 5), created_at = None, t_qr = None\<rparr>]"

text \<open>A successful response that carries the rows above and no global leaderboard.\<close>

definition example_response :: response where
  "example_response =
     \<lparr>res_ok = True, res_text = Inr [],
      res_json = Inr (DataObject (Some example_me) (Some example_rows) None)\<rparr>"

section \<open>Printing integer-valued numbers\<close>

lemma ulp_exponent_small: "m < 9007199254740992 \<Longrightarrow> ulp_exponent m = 0"
  by (subst ulp_exponent.simps) simp

lemma ulp_exponent_large:
  "9007199254740992 \<le> m \<Longrightarrow> ulp_exponent m = Suc (ulp_exponent (m div 2))"
  by (subst ulp_exponent.simps) simp

lemma round_to_double_small: "m < 9007199254740992 \<Longrightarrow> round_to_double m = m"
  by (simp add: round_to_double_def ulp_exponent_small)

lemma ulp_quotient_large:
  "4503599627370496 \<le> m \<Longrightarrow> 4503599627370496 \<le> m div 2 ^ ulp_exponent m"
proof (induction m rule: ulp_exponent.induct)
  case (1 m)
  show ?case
  proof (cases "m < 9007199254740992")
    case True
    with "1.prems" show ?thesis by (simp add: ulp_exponent_small)
  next
    case False
    then have l: "9007199254740992 \<le> m" by simp
    then have h: "4503599627370496 \<le> m div 2" by arith
    from False have "\<not> m < 2 ^ 53" by simp
    from "1.IH" [OF this h] have "4503599627370496 \<le> m div 2 div 2 ^ ulp_exponent (m div 2)" .
    then show ?thesis
      by (simp add: ulp_exponent_large [OF l] div_mult2_eq)
  qed
qed

lemma round_to_double_large:
  assumes "9007199254740992 \<le> m"
  shows "9007199254740992 \<le> round_to_double m"
proof -
  let ?u = "(2::nat) ^ ulp_exponent m"
  let ?q = "m div ?u"
  from assms have "4503599627370496 \<le> m" by simp
  then have q: "4503599627370496 \<le> ?q" by (rule ulp_quotient_large)
  have "ulp_exponent m = Suc (ulp_exponent (m div 2))"
    using assms by (rule ulp_exponent_large)
  then have u: "2 \<le> ?u" by simp
  from q u have "4503599627370496 * 2 \<le> ?q * ?u" by (rule mult_le_mono)
  then have a: "9007199254740992 \<le> ?q * ?u" by simp
  then have b: "9007199254740992 \<le> (?q + 1) * ?u" by simp
  show ?thesis
    unfolding round_to_double_def Let_def using a b by (simp only: if_split) simp
qed

lemma round_to_double_safe:
  assumes "x < 9007199254740992" and "round_to_double v = x"
  shows "v = x"
proof (cases "v < 9007199254740992")
  case True
  with assms(2) show ?thesis by (simp add: round_to_double_small)
next
  case False
  then have "9007199254740992 \<le> round_to_double v" by (intro round_to_double_large) simp
  with assms show ?thesis by simp
qed

lemma closest_decimal_reads_back:
  "reads_back x p c \<Longrightarrow> round_to_double (closest_decimal x p c) = x"
  unfolding reads_back_def closest_decimal_def Let_def by (auto split: if_splits)

lemma shortest_from_safe: "x < 9007199254740992 \<Longrightarrow> shortest_from x p = x"
proof (induction x p rule: shortest_from.induct)
  case (1 x p)
  show ?case
  proof (cases "p = 0")
    case True
    then show ?thesis by (subst shortest_from.simps) simp
  next
    case False
    show ?thesis
    proof (cases "reads_back x p (x div p)")
      case True
      then have "round_to_double (closest_decimal x p (x div p)) = x"
        by (rule closest_decimal_reads_back)
      with "1.prems" have "closest_decimal x p (x div p) = x" by (rule round_to_double_safe)
      with False True show ?thesis by (subst shortest_from.simps) simp
    next
      case r: False
      from "1.IH" [OF False r "1.prems"] False r show ?thesis
        by (subst shortest_from.simps) simp
    qed
  qed
qed

lemma length_decimal_digits: "0 < k \<Longrightarrow> x < 10 ^ k \<Longrightarrow> length (decimal_digits x) \<le> k"
proof (induction k arbitrary: x)
  case 0
  then show ?case by simp
next
  case (Suc k)
  show ?case
  proof (cases "x < 10")
    case True
    then show ?thesis by (subst decimal_digits.simps) simp
  next
    case False
    then have k: "0 < k" using Suc.prems(2) by (cases k) simp_all
    from Suc.prems(2) have "x div 10 < 10 ^ k" by (simp add: less_mult_imp_div_less mult.commute)
    from Suc.IH [OF k this] False show ?thesis by (subst decimal_digits.simps) simp
  qed
qed

lemma Number_toString_safe:
  assumes "x < 9007199254740992"
  shows "Number_toString x = decimal_digits x"
proof -
  have s: "shortest_decimal x = x"
    unfolding shortest_decimal_def using assms by (rule shortest_from_safe)
  from assms have "x < 10 ^ 21" by simp
  then have "length (decimal_digits x) \<le> 21" by (intro length_decimal_digits) simp_all
  then show ?thesis
    unfolding Number_toString_def s Let_def by simp
qed

text \<open>Evaluation of the printing functions at numerals.\<close>

lemma shortest_from_zero: "shortest_from x 0 = x"
  by (subst shortest_from.simps) simp

lemma shortest_from_found:
  "p \<noteq> 0 \<Longrightarrow> reads_back x p (x div p) \<Longrightarrow>
   shortest_from x p = closest_decimal x p (x div p)"
  by (subst shortest_from.simps) simp

lemma shortest_from_next:
  "p \<noteq> 0 \<Longrightarrow> \<not> reads_back x p (x div p) \<Longrightarrow>
   shortest_from x p = shortest_from x (p div 10)"
  by (subst shortest_from.simps) simp

lemma strip_trailing_zeros_zero: "strip_trailing_zeros 0 = 0"
  by (subst strip_trailing_zeros.simps) simp

lemma strip_trailing_zeros_step:
  "v \<noteq> 0 \<Longrightarrow> v mod 10 = 0 \<Longrightarrow> strip_trailing_zeros v = strip_trailing_zeros (v div 10)"
  by (subst strip_trailing_zeros.simps) simp

lemma strip_trailing_zeros_done: "v mod 10 \<noteq> 0 \<Longrightarrow> strip_trailing_zeros v = v"
  by (subst strip_trailing_zeros.simps) auto

lemma decimal_digits_one: "n < 10 \<Longrightarrow> decimal_digits n = [digit_char n]"
  by (subst decimal_digits.simps) simp

lemma decimal_digits_more:
  "10 \<le> n \<Longrightarrow> decimal_digits n = decimal_digits (n div 10) @ [digit_char (n mod 10)]"
  by (subst decimal_digits.simps) simp

lemmas number_eval =
  shortest_from_zero shortest_from_found shortest_from_next
  strip_trailing_zeros_zero strip_trailing_zeros_step strip_trailing_zeros_done
  decimal_digits_one decimal_digits_more digit_char_def
  ulp_exponent_small ulp_exponent_large
  reads_back_def round_to_double_def closest_decimal_def Let_def

lemma digits_1e21:
  "decimal_digits 1000000000000000000000 = ''1000000000000000000000''"
  by (simp add: decimal_digits_one decimal_digits_more digit_char_def)

lemma shortest_1e21: "shortest_decimal 1000000000000000000000 = 1000000000000000000000"
  unfolding shortest_decimal_def digits_1e21 by (simp add: number_eval)

lemma String_1e21: "String_number 1000000000000000000000 = ''1e+21''"
  by (simp add: String_number_def Number_toString_def Let_def shortest_1e21 digits_1e21)
    (simp add: number_eval)

lemma String_number_safe:
  assumes "0 \<le> n" and "n < 9007199254740992"
  shows "String_number n = decimal_string n"
proof -
  from assms have "nat n < 9007199254740992" by simp
  then have "Number_toString (nat n) = decimal_digits (nat n)" by (rule Number_toString_safe)
  with assms(1) show ?thesis by (simp add: String_number_def decimal_string_def)
qed

section \<open>Properties of the ordinal helper\<close>

lemma js_index_suffixes:
  "js_index [''th'', ''st'', ''nd'', ''rd''] i =
     (if i = 0 then Some ''th'' else if i = 1 then Some ''st'' else if i = 2 then Some ''nd''
      else if i = 3 then Some ''rd'' else None)"
proof -
  have "0 \<le> i \<and> i < 4 \<longleftrightarrow> i = 0 \<or> i = 1 \<or> i = 2 \<or> i = 3" by arith
  then show ?thesis by (auto simp: js_index_def)
qed

lemma js_index_zero: "js_index [''th'', ''st'', ''nd'', ''rd''] 0 = Some ''th''"
  by (simp add: js_index_def)

lemma suffix_at_low:
  assumes "0 \<le> v" "v < 20"
  shows "suffix_at v =
    Some (if v = 1 then ''st'' else if v = 2 then ''nd'' else if v = 3 then ''rd'' else ''th'')"
proof -
  have r: "js_rem (v - 20) 10 = - ((20 - v) mod 10)"
    using assms by (simp add: js_rem_def)
  have e: "suffix_at v =
      js_or (js_or (js_index [''th'', ''st'', ''nd'', ''rd''] (- ((20 - v) mod 10)))
        (js_index [''th'', ''st'', ''nd'', ''rd''] v)) (Some ''th'')"
    by (simp only: suffix_at_def Let_def r js_index_zero)
  have "(20 - v) mod 10 = 0 \<or> 0 < (20 - v) mod 10"
    using pos_mod_sign [of 10 "20 - v"] by arith
  then show ?thesis
  proof
    assume z: "(20 - v) mod 10 = 0"
    then have "v = 0 \<or> v = 10" using assms by presburger
    then show ?thesis
      unfolding e z by (auto simp: js_index_suffixes js_or_def)
  next
    assume p: "0 < (20 - v) mod 10"
    then have n: "js_index [''th'', ''st'', ''nd'', ''rd''] (- ((20 - v) mod 10)) = None"
      by (simp add: js_index_def)
    show ?thesis
      unfolding e n by (simp add: js_index_suffixes js_or_def)
  qed
qed

lemma sub20_mod10: "(v - 20) mod 10 = (v::int) mod 10"
proof -
  have "(v - 20) mod 10 = (v - 20 mod 10) mod 10"
    by (rule mod_diff_right_eq [symmetric])
  then show ?thesis by simp
qed

lemma suffix_at_high:
  assumes "20 \<le> v"
  shows "suffix_at v =
    Some (if v mod 10 = 1 then ''st'' else if v mod 10 = 2 then ''nd''
          else if v mod 10 = 3 then ''rd'' else ''th'')"
proof -
  have "js_rem (v - 20) 10 = (v - 20) mod 10"
    using assms by (simp add: js_rem_def)
  then have r: "js_rem (v - 20) 10 = v mod 10"
    by (simp only: sub20_mod10)
  have n: "js_index [''th'', ''st'', ''nd'', ''rd''] v = None"
    using assms by (simp add: js_index_def)
  have e: "suffix_at v =
      js_or (js_or (js_index [''th'', ''st'', ''nd'', ''rd''] (v mod 10)) None) (Some ''th'')"
    by (simp only: suffix_at_def Let_def r n js_index_zero)
  show ?thesis
    by (simp only: e js_index_suffixes) (simp add: js_or_def)
qed

lemma mod100_mod10: "(n::int) mod 100 mod 10 = n mod 10"
  by (simp add: mod_mod_cancel)

lemma low_conditions:
  fixes u w :: int
  assumes "0 \<le> w" "w < 20" "w mod 10 = u"
  shows "(u = 1 \<and> \<not> (11 \<le> w \<and> w \<le> 13)) = (w = 1)"
    and "(u = 2 \<and> w \<noteq> 12) = (w = 2)"
    and "(u = 3 \<and> w \<noteq> 13) = (w = 3)"
  using assms by presburger+

lemma high_conditions:
  fixes u w :: int
  assumes "20 \<le> w" "w < 100" "w mod 10 = u"
  shows "(u = 1 \<and> \<not> (11 \<le> w \<and> w \<le> 13)) = (u = 1)"
    and "(u = 2 \<and> w \<noteq> 12) = (u = 2)"
    and "(u = 3 \<and> w \<noteq> 13) = (u = 3)"
  using assms by auto

lemma spec_low:
  assumes "0 \<le> n mod 100" "n mod 100 < 20"
  shows "ordinal_suffix_spec n =
    (if n mod 100 = 1 then ''st'' else if n mod 100 = 2 then ''nd''
     else if n mod 100 = 3 then ''rd'' else ''th'')"
  by (simp only: ordinal_suffix_spec_def low_conditions [OF assms mod100_mod10])

lemma spec_high:
  assumes "20 \<le> n mod 100"
  shows "ordinal_suffix_spec n =
    (if n mod 10 = 1 then ''st'' else if n mod 10 = 2 then ''nd''
     else if n mod 10 = 3 then ''rd'' else ''th'')"
proof -
  have b: "n mod 100 < 100" by simp
  show ?thesis
    by (simp only: ordinal_suffix_spec_def high_conditions [OF assms b mod100_mod10])
qed

lemma ordinal_String_suffix:
  assumes "1 \<le> n"
  shows "ordinal n = String_number n @ ordinal_suffix_spec n"
proof -
  let ?v = "n mod 100"
  have v: "js_rem n 100 = ?v" using assms by (simp add: js_rem_def)
  have b: "0 \<le> ?v" by simp
  have o: "ordinal n = string_concat (String_number n) (suffix_at ?v)"
    by (simp only: ordinal_def suffix_at_def Let_def v)
  have "suffix_at ?v = Some (ordinal_suffix_spec n)"
  proof (cases "?v < 20")
    case True
    show ?thesis
      by (simp only: suffix_at_low [OF b True] spec_low [OF b True])
  next
    case False
    then have h: "20 \<le> ?v" by simp
    show ?thesis
      by (simp only: suffix_at_high [OF h] spec_high [OF h] mod100_mod10)
  qed
  then show ?thesis by (simp only: o string_concat_def option.case)
qed

text \<open>
  Claim C1, as stated: for every integer \<open>n \<ge> 1\<close>, \<open>ordinal n\<close> is the decimal string of \<open>n\<close>
  followed by the suffix. It fails at \<open>n = 10^21\<close>, an integer that is a number: there
  \<^verbatim>\<open>String(n)\<close> is \<open>1e+21\<close>, and \<open>ordinal n\<close> is \<open>1e+21th\<close>.
\<close>

theorem ordinal_1e21_counterexample:
  "ordinal 1000000000000000000000 = ''1e+21th'' \<and>
   ordinal 1000000000000000000000 \<noteq>
     decimal_string 1000000000000000000000 @ ordinal_suffix_spec 1000000000000000000000"
proof -
  have "ordinal 1000000000000000000000 =
      String_number 1000000000000000000000 @ ordinal_suffix_spec 1000000000000000000000"
    by (rule ordinal_String_suffix) simp
  then have o: "ordinal 1000000000000000000000 = ''1e+21th''"
    by (simp add: String_1e21 ordinal_suffix_spec_def)
  have d: "decimal_string 1000000000000000000000 = ''1000000000000000000000''"
    by (simp add: decimal_string_def digits_1e21)
  show ?thesis
    unfolding o d by (simp add: ordinal_suffix_spec_def)
qed

text \<open>
  Claim C1, amended. For every integer \<open>n\<close> with \<open>1 \<le> n < 2^53\<close>, \<open>ordinal n\<close> is the decimal
  string of \<open>n\<close> followed by \<open>st\<close> when \<open>n mod 10 = 1\<close> and \<open>n mod 100\<close> is not in 11..13, by
  \<open>nd\<close> when \<open>n mod 10 = 2\<close> and \<open>n mod 100 \<noteq> 12\<close>, by \<open>rd\<close> when \<open>n mod 10 = 3\<close> and
  \<open>n mod 100 \<noteq> 13\<close>, and by \<open>th\<close> otherwise. For every \<open>n \<ge> 1\<close>, also from \<open>2^53\<close> on,
  \<open>ordinal n\<close> is \<^verbatim>\<open>String(n)\<close> followed by that suffix.
\<close>

theorem ordinal_safe_integers:
  assumes "1 \<le> n"
  shows "ordinal n = String_number n @ ordinal_suffix_spec n \<and>
    (n < 2 ^ 53 \<longrightarrow> ordinal n = decimal_string n @ ordinal_suffix_spec n)"
proof
  show a: "ordinal n = String_number n @ ordinal_suffix_spec n"
    using assms by (rule ordinal_String_suffix)
  show "n < 2 ^ 53 \<longrightarrow> ordinal n = decimal_string n @ ordinal_suffix_spec n"
  proof
    assume "n < 2 ^ 53"
    then have "n < 9007199254740992" by simp
    with assms have "String_number n = decimal_string n"
      by (intro String_number_safe) simp_all
    with a show "ordinal n = decimal_string n @ ordinal_suffix_spec n" by simp
  qed
qed

text \<open>The four examples of the specification, obtained from the theorem.\<close>

theorem ordinal_safe_integers_witness:
  "ordinal 1 = ''1st'' \<and> ordinal 11 = ''11th'' \<and> ordinal 21 = ''21st'' \<and>
   ordinal 102 = ''102nd''"
  using ordinal_safe_integers [of 1, THEN conjunct2]
    ordinal_safe_integers [of 11, THEN conjunct2]
    ordinal_safe_integers [of 21, THEN conjunct2]
    ordinal_safe_integers [of 102, THEN conjunct2]
  by (simp add: ordinal_suffix_spec_def decimal_string_def decimal_digits_one
      decimal_digits_more digit_char_def)

section \<open>The submitted age\<close>

lemma sample_Number_abc: "sample_Number ''abc'' = NaN"
  by (simp add: sample_Number_def is_digit_def)

lemma sample_Number_30: "sample_Number ''30'' = Num 30"
  by (simp add: sample_Number_def is_digit_def digits_value_def)

lemma JSON_properties_lookup:
  "distinct (map fst kvs) \<Longrightarrow>
   map_of (JSON_properties kvs) k =
     (case map_of kvs k of None \<Rightarrow> None | Some v \<Rightarrow> SerializeJSONProperty v)"
proof (induction kvs)
  case Nil
  then show ?case by simp
next
  case (Cons kv kvs)
  obtain k' v' where kv: "kv = (k', v')" by (cases kv)
  from Cons.prems kv have d: "distinct (map fst kvs)" and n: "k' \<notin> fst ` set kvs" by auto
  have ih: "map_of (JSON_properties kvs) k =
     (case map_of kvs k of None \<Rightarrow> None | Some v \<Rightarrow> SerializeJSONProperty v)"
    using Cons.IH d by simp
  show ?case
  proof (cases "k = k'")
    case True
    from n have "map_of kvs k' = None" by (simp add: map_of_eq_None_iff)
    with ih True have "map_of (JSON_properties kvs) k' = None" by simp
    with True kv show ?thesis by (simp split: option.splits)
  next
    case False
    with kv ih show ?thesis by (simp split: option.splits)
  qed
qed

lemma payload_keys:
  "map fst (payload rt qp f) =
     [''event'', ''device'', ''country'', ''time'', ''t'', ''nonce'', ''sig'',
      ''name'', ''age'', ''gender'']"
  by (simp add: payload_def)

lemma payload_distinct: "distinct (map fst (payload rt qp f))"
  by (simp add: payload_keys)

lemma payload_age:
  "map_of (payload rt qp f) ''age'' =
     Some (if form_age f \<noteq> [] then VNumber (rt_Number rt (form_age f)) else VNull)"
  by (simp add: payload_def)

lemma body_field_register:
  "body_field (register_request rt qp f) k =
     (case map_of (payload rt qp f) k of None \<Rightarrow> None | Some v \<Rightarrow> SerializeJSONProperty v)"
  by (simp add: body_field_def register_request_def JSON_stringify_def
      JSON_properties_lookup [OF payload_distinct])

text \<open>The object \<^verbatim>\<open>payload\<close> itself holds \<open>NaN\<close> for an age string that is not numeric.\<close>

lemma payload_object_age_NaN:
  "form_age f \<noteq> [] \<Longrightarrow> rt_Number rt (form_age f) = NaN \<Longrightarrow>
   map_of (payload rt qp f) ''age'' = Some (VNumber NaN)"
  by (simp add: payload_age)

text \<open>
  Claim C2. For every form state, the age field of the submitted payload is \<open>null\<close> when
  the age string is blank, and it is never \<open>NaN\<close> nor an empty string, also when the age
  string is not numeric: the body that is sent holds \<open>null\<close> or a finite number. (The
  object \<^verbatim>\<open>payload\<close> holds \<open>NaN\<close> for a non-empty string that is not numeric;
  \<^verbatim>\<open>JSON.stringify\<close> writes it as \<open>null\<close>.)
\<close>

theorem submitted_age_null_or_number:
  "(form_age f = [] \<longrightarrow> body_field (register_request rt qp f) ''age'' = Some JNull) \<and>
   (rt_Number rt (form_age f) = NaN \<longrightarrow>
      body_field (register_request rt qp f) ''age'' = Some JNull) \<and>
   (\<forall>q. form_age f \<noteq> [] \<and> rt_Number rt (form_age f) = Num q \<longrightarrow>
      body_field (register_request rt qp f) ''age'' = Some (JNumber q)) \<and>
   body_field (register_request rt qp f) ''age'' \<noteq> Some (JString []) \<and>
   (body_field (register_request rt qp f) ''age'' = Some JNull \<or>
    (\<exists>q. rt_Number rt (form_age f) = Num q \<and>
         body_field (register_request rt qp f) ''age'' = Some (JNumber q)))"
proof -
  have e: "body_field (register_request rt qp f) ''age'' =
      SerializeJSONProperty
        (if form_age f \<noteq> [] then VNumber (rt_Number rt (form_age f)) else VNull)"
    by (simp only: body_field_register payload_age option.case)
  show ?thesis
    unfolding e by (cases "rt_Number rt (form_age f)") auto
qed

theorem submitted_age_witness:
  "body_field (register_request sample_runtime Map.empty
      \<lparr>form_name = ''Ann'', form_age = '''', form_gender = ''''\<rparr>) ''age'' = Some JNull \<and>
   body_field (register_request sample_runtime Map.empty
      \<lparr>form_name = ''Ann'', form_age = ''abc'', form_gender = ''''\<rparr>) ''age'' = Some JNull \<and>
   body_field (register_request sample_runtime Map.empty
      \<lparr>form_name = ''Ann'', form_age = ''30'', form_gender = ''''\<rparr>) ''age'' = Some (JNumber 30)"
  using submitted_age_null_or_number
      [of "\<lparr>form_name = ''Ann'', form_age = '''', form_gender = ''''\<rparr>" sample_runtime Map.empty]
    submitted_age_null_or_number
      [of "\<lparr>form_name = ''Ann'', form_age = ''abc'', form_gender = ''''\<rparr>" sample_runtime Map.empty]
    submitted_age_null_or_number
      [of "\<lparr>form_name = ''Ann'', form_age = ''30'', form_gender = ''''\<rparr>" sample_runtime Map.empty]
  by (auto simp: sample_runtime_def sample_Number_abc sample_Number_30)

section \<open>Trimming\<close>

lemma strip_leading_None:
  "find (\<lambda>w. w \<noteq> [] \<and> prefix w s) ws = None \<Longrightarrow> strip_leading ws s = s"
  by (subst strip_leading.simps) simp

lemma strip_leading_Some:
  "find (\<lambda>w. w \<noteq> [] \<and> prefix w s) ws = Some w \<Longrightarrow>
   strip_leading ws s = strip_leading ws (drop (length w) s)"
  by (subst strip_leading.simps) simp

lemma strip_leading_split:
  "\<exists>pre. s = pre @ strip_leading ws s \<and> run_of ws pre"
proof (induction ws s rule: strip_leading.induct)
  case (1 ws s)
  show ?case
  proof (cases "find (\<lambda>w. w \<noteq> [] \<and> prefix w s) ws")
    case None
    have "s = [] @ strip_leading ws s \<and> run_of ws []"
      by (simp add: strip_leading_None [OF None] run_empty)
    then show ?thesis by (rule exI)
  next
    case (Some w)
    then have w: "w \<in> set ws" "prefix w s" by (auto simp: find_Some_iff)
    from "1.IH" [OF Some] obtain pre
      where p: "drop (length w) s = pre @ strip_leading ws (drop (length w) s)"
        and r: "run_of ws pre"
      by (elim exE conjE)
    from w(2) have "s = w @ drop (length w) s" by (auto simp: prefix_def)
    with p have "s = (w @ pre) @ strip_leading ws (drop (length w) s)" by simp
    then have "s = (w @ pre) @ strip_leading ws s"
      by (simp only: strip_leading_Some [OF Some])
    moreover from w(1) r have "run_of ws (w @ pre)" by (rule run_step)
    ultimately have "s = (w @ pre) @ strip_leading ws s \<and> run_of ws (w @ pre)" by simp
    then show ?thesis by (rule exI)
  qed
qed

lemma strip_leading_no_prefix:
  "w \<in> set ws \<Longrightarrow> w \<noteq> [] \<Longrightarrow> \<not> prefix w (strip_leading ws s)"
proof (induction ws s rule: strip_leading.induct)
  case (1 ws s)
  show ?case
  proof (cases "find (\<lambda>w. w \<noteq> [] \<and> prefix w s) ws")
    case None
    then have "\<not> (w \<noteq> [] \<and> prefix w s)" using "1.prems"(1) by (auto simp: find_None_iff)
    with "1.prems"(2) show ?thesis by (simp add: strip_leading_None [OF None])
  next
    case (Some v)
    show ?thesis
      unfolding strip_leading_Some [OF Some] by (rule "1.IH" [OF Some "1.prems"])
  qed
qed

lemma run_of_append: "run_of ws a \<Longrightarrow> run_of ws b \<Longrightarrow> run_of ws (a @ b)"
proof (induction rule: run_of.induct)
  case run_empty
  then show ?case by simp
next
  case (run_step w s)
  from run_step.IH [OF run_step.prems] have "run_of ws (s @ b)" .
  with run_step.hyps(1) have "run_of ws (w @ (s @ b))" by (rule run_of.run_step)
  then show ?case by simp
qed

lemma run_of_rev: "run_of (map rev ws) s \<Longrightarrow> run_of ws (rev s)"
proof (induction rule: run_of.induct)
  case run_empty
  then show ?case by (simp add: run_of.run_empty)
next
  case (run_step w s)
  from run_step.hyps(1) obtain v where v: "v \<in> set ws" "w = rev v" by auto
  from v(1) have "run_of ws (v @ [])" by (intro run_of.run_step run_of.run_empty)
  then have "run_of ws v" by simp
  with run_step.IH have "run_of ws (rev s @ v)" by (rule run_of_append)
  with v(2) show ?case by simp
qed

lemma white_space_nonempty: "w \<in> set white_space \<Longrightarrow> w \<noteq> []"
  by (auto simp: white_space_def)

text \<open>
  What \<open>js_trim\<close> returns is the string without a run of white space at its front and one
  at its end, and it neither starts nor ends with white space.
\<close>

lemma js_trim_removes_white_space:
  "\<exists>pre post. s = pre @ js_trim s @ post \<and> run_of white_space pre \<and> run_of white_space post \<and>
     (\<forall>w \<in> set white_space. \<not> prefix w (js_trim s) \<and> \<not> suffix w (js_trim s))"
proof -
  let ?a = "strip_leading white_space s"
  let ?b = "strip_leading (map rev white_space) (rev ?a)"
  from strip_leading_split [of s white_space] obtain pre
    where p: "s = pre @ ?a" and rp: "run_of white_space pre"
    by (elim exE conjE)
  from strip_leading_split [of "rev ?a" "map rev white_space"] obtain q
    where q: "rev ?a = q @ ?b" and rq: "run_of (map rev white_space) q"
    by (elim exE conjE)
  have t: "js_trim s = rev ?b" by (simp add: js_trim_def)
  from q have "rev (rev ?a) = rev (q @ ?b)" by (rule arg_cong)
  then have a: "?a = rev ?b @ rev q" by simp
  from p a have s: "s = pre @ js_trim s @ rev q" by (simp only: t)
  from rq have rr: "run_of white_space (rev q)" by (rule run_of_rev)
  have n: "\<not> prefix w (js_trim s) \<and> \<not> suffix w (js_trim s)" if w: "w \<in> set white_space" for w
  proof
    from w have ne: "w \<noteq> []" by (rule white_space_nonempty)
    from strip_leading_no_prefix [OF w ne, of s] have "\<not> prefix w ?a" .
    moreover have "prefix (rev ?b) ?a" by (rule prefixI [OF a])
    ultimately show "\<not> prefix w (js_trim s)"
      unfolding t using prefix_order.trans by blast
  next
    from w have ne: "rev w \<noteq> []" using white_space_nonempty by simp
    from w have m: "rev w \<in> set (map rev white_space)" by simp
    from strip_leading_no_prefix [OF m ne, of "rev ?a"] have "\<not> prefix (rev w) ?b" .
    then show "\<not> suffix w (js_trim s)"
      unfolding t by (simp add: suffix_to_prefix)
  qed
  from s rp rr n show ?thesis by blast
qed

section \<open>The registration payload\<close>

lemma payload_qr_fields:
  "map_of (payload rt qp f) ''event'' = Some (param_value qp ''event'')"
  "map_of (payload rt qp f) ''device'' = Some (param_value qp ''device'')"
  "map_of (payload rt qp f) ''country'' = Some (param_value qp ''country'')"
  "map_of (payload rt qp f) ''time'' = Some (param_value qp ''time'')"
  "map_of (payload rt qp f) ''t'' = Some (param_value qp ''t'')"
  "map_of (payload rt qp f) ''nonce'' = Some (param_value qp ''nonce'')"
  "map_of (payload rt qp f) ''sig'' = Some (param_value qp ''sig'')"
  by (simp_all add: payload_def)

lemma payload_user_fields:
  "map_of (payload rt qp f) ''name'' = Some (VString (js_trim (form_name f)))"
  "map_of (payload rt qp f) ''gender'' =
     Some (if form_gender f = [] then VNull else VString (form_gender f))"
  by (simp_all add: payload_def)

text \<open>
  Claim C7. For every mapping of query parameters and every form state, the payload copies
  the QR fields \<open>event\<close>, \<open>device\<close>, \<open>country\<close>, \<open>time\<close>, \<open>t\<close>, \<open>nonce\<close> and \<open>sig\<close>
  as they are in the query parameters (a parameter that is absent stays \<^verbatim>\<open>undefined\<close>),
  and sets \<open>name\<close> to the trimmed name of the form, \<open>age\<close> to \<^verbatim>\<open>Number\<close> of the age string
  or \<open>null\<close> if it is empty, and \<open>gender\<close> to the gender of the form or \<open>null\<close> if it is
  empty. The claim names seven QR fields (it counts them as six); all seven are copied, and
  the payload has these ten properties and no other.
\<close>

theorem payload_fields:
  "map fst (payload rt qp f) =
     [''event'', ''device'', ''country'', ''time'', ''t'', ''nonce'', ''sig'',
      ''name'', ''age'', ''gender''] \<and>
   map_of (payload rt qp f) ''event'' =
     Some (case qp ''event'' of None \<Rightarrow> VUndefined | Some v \<Rightarrow> VString v) \<and>
   map_of (payload rt qp f) ''device'' =
     Some (case qp ''device'' of None \<Rightarrow> VUndefined | Some v \<Rightarrow> VString v) \<and>
   map_of (payload rt qp f) ''country'' =
     Some (case qp ''country'' of None \<Rightarrow> VUndefined | Some v \<Rightarrow> VString v) \<and>
   map_of (payload rt qp f) ''time'' =
     Some (case qp ''time'' of None \<Rightarrow> VUndefined | Some v \<Rightarrow> VString v) \<and>
   map_of (payload rt qp f) ''t'' =
     Some (case qp ''t'' of None \<Rightarrow> VUndefined | Some v \<Rightarrow> VString v) \<and>
   map_of (payload rt qp f) ''nonce'' =
     Some (case qp ''nonce'' of None \<Rightarrow> VUndefined | Some v \<Rightarrow> VString v) \<and>
   map_of (payload rt qp f) ''sig'' =
     Some (case qp ''sig'' of None \<Rightarrow> VUndefined | Some v \<Rightarrow> VString v) \<and>
   map_of (payload rt qp f) ''name'' = Some (VString (js_trim (form_name f))) \<and>
   map_of (payload rt qp f) ''age'' =
     Some (if form_age f = [] then VNull else VNumber (rt_Number rt (form_age f))) \<and>
   map_of (payload rt qp f) ''gender'' =
     Some (if form_gender f = [] then VNull else VString (form_gender f))"
proof -
  have "map_of (payload rt qp f) ''age'' =
     Some (if form_age f = [] then VNull else VNumber (rt_Number rt (form_age f)))"
    by (simp add: payload_age)
  then show ?thesis
    by (simp only: payload_keys payload_qr_fields payload_user_fields param_value_def simp_thms)
qed

lemma js_trim_example: "js_trim ''  Ann Lee  '' = ''Ann Lee''"
  by (simp add: js_trim_def strip_leading.simps white_space_def)

theorem payload_fields_witness:
  "payload sample_runtime
     [''event'' \<mapsto> ''e1'', ''country'' \<mapsto> ''US'', ''time'' \<mapsto> ''12.34'', ''sig'' \<mapsto> ''abc'']
     \<lparr>form_name = ''  Ann Lee  '', form_age = ''30'', form_gender = ''''\<rparr> =
   [(''event'', VString ''e1''), (''device'', VUndefined), (''country'', VString ''US''),
    (''time'', VString ''12.34''), (''t'', VUndefined), (''nonce'', VUndefined),
    (''sig'', VString ''abc''), (''name'', VString ''Ann Lee''), (''age'', VNumber (Num 30)),
    (''gender'', VNull)]"
  using payload_fields [of sample_runtime
     "[''event'' \<mapsto> ''e1'', ''country'' \<mapsto> ''US'', ''time'' \<mapsto> ''12.34'', ''sig'' \<mapsto> ''abc'']"
     "\<lparr>form_name = ''  Ann Lee  '', form_age = ''30'', form_gender = ''''\<rparr>"]
  by (simp add: payload_def param_value_def sample_runtime_def sample_Number_30 js_trim_example)

section \<open>The rank preview request\<close>

lemma sample_Number_12: "sample_Number ''12'' = Num 12"
  by (simp add: sample_Number_def is_digit_def digits_value_def)

text \<open>
  Claim C6. The rank preview request is issued if and only if \<open>countryCode\<close> is not empty
  and \<open>timeSec > 0\<close>. No request is made when \<open>countryCode\<close> is empty, when \<open>timeSec\<close> is
  \<open>0\<close>, when the \<open>time\<close> parameter is missing (then \<open>timeSec\<close> is \<open>0\<close>), or when it is not
  numeric (then \<open>timeSec\<close> is \<open>NaN\<close>, which is not greater than \<open>0\<close>).
\<close>

theorem rank_preview_issued_iff:
  "(rank_preview_effect rt qp \<noteq> None) =
     (countryCode qp \<noteq> [] \<and> gt_zero (timeSec rt qp)) \<and>
   (countryCode qp = [] \<longrightarrow> rank_preview_effect rt qp = None) \<and>
   (timeSec rt qp = Num 0 \<longrightarrow> rank_preview_effect rt qp = None) \<and>
   (qp ''time'' = None \<longrightarrow> timeSec rt qp = Num 0 \<and> rank_preview_effect rt qp = None) \<and>
   (\<forall>t. qp ''time'' = Some t \<and> rt_Number rt t = NaN \<longrightarrow> rank_preview_effect rt qp = None)"
proof -
  have a: "(rank_preview_effect rt qp \<noteq> None) =
      (countryCode qp \<noteq> [] \<and> gt_zero (timeSec rt qp))"
    by (simp add: rank_preview_effect_def)
  have b: "qp ''time'' = None \<longrightarrow> timeSec rt qp = Num 0"
    by (simp add: timeSec_def)
  have c: "\<forall>t. qp ''time'' = Some t \<and> rt_Number rt t = NaN \<longrightarrow> \<not> gt_zero (timeSec rt qp)"
    by (simp add: timeSec_def)
  have d: "\<not> gt_zero (timeSec rt qp) \<longrightarrow> rank_preview_effect rt qp = None"
    by (simp add: rank_preview_effect_def)
  have e: "countryCode qp = [] \<longrightarrow> rank_preview_effect rt qp = None"
    by (simp add: rank_preview_effect_def)
  have f: "timeSec rt qp = Num 0 \<longrightarrow> \<not> gt_zero (timeSec rt qp)"
    by simp
  from a b c d e f show ?thesis by blast
qed

theorem rank_preview_issued_witness:
  "rank_preview_effect sample_runtime [''country'' \<mapsto> ''US'', ''time'' \<mapsto> ''12''] =
     Some \<lparr>req_url = API_BASE @ ''/rank_preview'',
           req_query = [(''country'', VString ''US''), (''time'', VNumber (Num 12))],
           req_verb = ''GET'', req_headers = [], req_body = None\<rparr> \<and>
   rank_preview_effect sample_runtime [''time'' \<mapsto> ''12''] = None \<and>
   rank_preview_effect sample_runtime [''country'' \<mapsto> '''', ''time'' \<mapsto> ''12''] = None \<and>
   rank_preview_effect sample_runtime [''country'' \<mapsto> ''US''] = None \<and>
   rank_preview_effect sample_runtime [''country'' \<mapsto> ''US'', ''time'' \<mapsto> ''0''] = None \<and>
   rank_preview_effect sample_runtime [''country'' \<mapsto> ''US'', ''time'' \<mapsto> ''abc''] = None"
proof -
  have n0: "sample_Number ''0'' = Num 0"
    by (simp add: sample_Number_def is_digit_def digits_value_def)
  have 1: "rank_preview_effect sample_runtime [''country'' \<mapsto> ''US'', ''time'' \<mapsto> ''12''] \<noteq> None"
    using rank_preview_issued_iff [of sample_runtime "[''country'' \<mapsto> ''US'', ''time'' \<mapsto> ''12'']"]
    by (simp add: countryCode_def timeSec_def str_or_def sample_runtime_def sample_Number_12)
  have 2: "rank_preview_effect sample_runtime [''time'' \<mapsto> ''12''] = None"
    using rank_preview_issued_iff [of sample_runtime "[''time'' \<mapsto> ''12'']"]
    by (simp add: countryCode_def str_or_def)
  have 3: "rank_preview_effect sample_runtime [''country'' \<mapsto> '''', ''time'' \<mapsto> ''12''] = None"
    using rank_preview_issued_iff [of sample_runtime "[''country'' \<mapsto> '''', ''time'' \<mapsto> ''12'']"]
    by (simp add: countryCode_def str_or_def)
  have 4: "rank_preview_effect sample_runtime [''country'' \<mapsto> ''US''] = None"
    using rank_preview_issued_iff [of sample_runtime "[''country'' \<mapsto> ''US'']"]
    by simp
  have 5: "rank_preview_effect sample_runtime [''country'' \<mapsto> ''US'', ''time'' \<mapsto> ''0''] = None"
    using rank_preview_issued_iff [of sample_runtime "[''country'' \<mapsto> ''US'', ''time'' \<mapsto> ''0'']"]
    by (simp add: timeSec_def sample_runtime_def n0)
  have 6: "rank_preview_effect sample_runtime [''country'' \<mapsto> ''US'', ''time'' \<mapsto> ''abc''] = None"
    using rank_preview_issued_iff [of sample_runtime "[''country'' \<mapsto> ''US'', ''time'' \<mapsto> ''abc'']"]
    by (simp add: sample_runtime_def sample_Number_abc)
  from 1 have "rank_preview_effect sample_runtime [''country'' \<mapsto> ''US'', ''time'' \<mapsto> ''12''] =
     Some \<lparr>req_url = API_BASE @ ''/rank_preview'',
           req_query = [(''country'', VString ''US''), (''time'', VNumber (Num 12))],
           req_verb = ''GET'', req_headers = [], req_body = None\<rparr>"
    by (simp add: rank_preview_effect_def countryCode_def timeSec_def str_or_def
        sample_runtime_def sample_Number_12 split: if_splits)
  with 2 3 4 5 6 show ?thesis by simp
qed

section \<open>The hero of the form step\<close>

lemma Hero_location:
  "map_of (hero_stats (Hero rt time cname localDT rp)) ''Location'' = Some (str_or cname em_dash)"
  by (simp add: Hero_def)

lemma Hero_datetime:
  "map_of (hero_stats (Hero rt time cname localDT rp)) ''Date & Time'' =
     Some (str_or localDT em_dash)"
  by (simp add: Hero_def)

lemma countryName_absent:
  "qp ''countryName'' = None \<Longrightarrow> qp ''country'' = None \<Longrightarrow> countryName qp = []"
  by (simp add: countryName_def js_or_def str_or_def)

text \<open>
  Claim C8. When the query parameters \<open>countryName\<close> and \<open>country\<close> are both absent, the
  Location stat of the hero shows the em dash; when \<open>localDT\<close> is absent, the Date and Time
  stat shows the em dash; and a missing \<open>time\<close> parameter is the number \<open>0\<close> once coerced.
\<close>

theorem hero_absent_parameters:
  assumes "step s = Form"
  shows "\<exists>fv. App_view rt qp s = FormView fv \<and>
    (qp ''countryName'' = None \<and> qp ''country'' = None \<longrightarrow>
       map_of (hero_stats (fv_hero fv)) ''Location'' = Some em_dash) \<and>
    (qp ''localDT'' = None \<longrightarrow>
       map_of (hero_stats (fv_hero fv)) ''Date & Time'' = Some em_dash) \<and>
    (qp ''time'' = None \<longrightarrow> timeSec rt qp = Num 0)"
proof -
  let ?h = "Hero rt (timeSec rt qp) (Some (countryName qp)) (qp ''localDT'') (rankPreview s)"
  let ?fv = "\<lparr>fv_hero = ?h,
     fv_error = (if error s \<noteq> [] then Some (error s) else None),
     fv_submit_disabled = submitting s,
     fv_submit_label = (if submitting s then ''Submitting'' @ ellipsis else ''Submit result'')\<rparr>"
  have v: "App_view rt qp s = FormView ?fv"
    using assms by (simp add: App_view_def)
  have l: "qp ''countryName'' = None \<and> qp ''country'' = None \<longrightarrow>
      map_of (hero_stats (fv_hero ?fv)) ''Location'' = Some em_dash"
    by (simp add: Hero_location countryName_absent str_or_def)
  have d: "qp ''localDT'' = None \<longrightarrow>
      map_of (hero_stats (fv_hero ?fv)) ''Date & Time'' = Some em_dash"
    by (simp add: Hero_datetime str_or_def)
  have t: "qp ''time'' = None \<longrightarrow> timeSec rt qp = Num 0"
    by (simp add: timeSec_def)
  show ?thesis
    by (intro exI [of _ ?fv] conjI) (fact v, fact l, fact d, fact t)
qed

theorem hero_absent_parameters_witness:
  "\<exists>fv. App_view sample_runtime Map.empty initial_state = FormView fv \<and>
     map_of (hero_stats (fv_hero fv)) ''Location'' = Some [CHR 0xE2, CHR 0x80, CHR 0x94] \<and>
     map_of (hero_stats (fv_hero fv)) ''Date & Time'' = Some [CHR 0xE2, CHR 0x80, CHR 0x94] \<and>
     timeSec sample_runtime Map.empty = Num 0"
proof -
  have s: "step initial_state = Form" by (simp add: initial_state_def)
  from hero_absent_parameters [OF s, of sample_runtime Map.empty]
  show ?thesis by (simp add: em_dash_def)
qed

section \<open>The rank lines of the leaderboards step\<close>

lemma rank_line_eq:
  "(rank_line l r = RankLine label t) =
     (label = l \<and> (\<exists>n. r = Some n \<and> n \<noteq> 0 \<and> t = ordinal n))"
proof (cases r)
  case None
  then show ?thesis by (simp add: rank_line_def)
next
  case (Some n)
  then show ?thesis by (cases "n = 0") (auto simp: rank_line_def)
qed

lemma me_rank_country_eq:
  "(me_rank_country mo = Some n) = (\<exists>m. mo = Some m \<and> rank_country m = Some n)"
  by (cases mo) (simp_all add: me_rank_country_def)

lemma me_rank_global_eq:
  "(me_rank_global mo = Some n) = (\<exists>m. mo = Some m \<and> rank_global m = Some n)"
  by (cases mo) (simp_all add: me_rank_global_def)

text \<open>
  Claim C10. On the leaderboards step, the line \<open>Your country rank\<close> is rendered if and only
  if \<open>me.rank_country\<close> is truthy, that is, \<open>me\<close> is set and its rank is present and not
  \<open>0\<close>; likewise the line \<open>Global rank\<close> for \<open>me.rank_global\<close>. A rank of \<open>0\<close> and an absent
  rank give no rank line, and the line shows \<open>ordinal\<close> of a rank that is not \<open>0\<close>.
\<close>

theorem rank_lines_iff_truthy:
  assumes "step s = Leaderboards"
  shows "\<exists>lv. App_view rt qp s = LeaderboardsView lv \<and>
    (\<forall>label t. (lv_country_rank lv = RankLine label t) =
       (label = ''Your country rank: '' \<and>
        (\<exists>m r. me s = Some m \<and> rank_country m = Some r \<and> r \<noteq> 0 \<and> t = ordinal r))) \<and>
    (\<forall>label t. (lv_global_rank lv = RankLine label t) =
       (label = ''Global rank: '' \<and>
        (\<exists>m r. me s = Some m \<and> rank_global m = Some r \<and> r \<noteq> 0 \<and> t = ordinal r)))"
proof -
  let ?lv = "\<lparr>lv_country_rank = rank_line ''Your country rank: '' (me_rank_country (me s)),
     lv_global_rank = rank_line ''Global rank: '' (me_rank_global (me s)),
     lv_country_table =
       Table rt (''Top 100 '' @ em_dash @ '' '' @ countryName qp) (lbCountry s) (me s),
     lv_global_table = Table rt (''Top 20 '' @ em_dash @ '' Global'') (lbGlobal s) (me s)\<rparr>"
  have v: "App_view rt qp s = LeaderboardsView ?lv"
    using assms by (simp add: App_view_def)
  have c: "\<forall>label t. (lv_country_rank ?lv = RankLine label t) =
       (label = ''Your country rank: '' \<and>
        (\<exists>m r. me s = Some m \<and> rank_country m = Some r \<and> r \<noteq> 0 \<and> t = ordinal r))"
    by (simp add: rank_line_eq me_rank_country_eq) blast
  have g: "\<forall>label t. (lv_global_rank ?lv = RankLine label t) =
       (label = ''Global rank: '' \<and>
        (\<exists>m r. me s = Some m \<and> rank_global m = Some r \<and> r \<noteq> 0 \<and> t = ordinal r))"
    by (simp add: rank_line_eq me_rank_global_eq) blast
  show ?thesis
    by (intro exI [of _ ?lv] conjI) (fact v, fact c, fact g)
qed

lemma ordinal_3: "ordinal 3 = ''3rd''"
proof -
  have "ordinal 3 = String_number 3 @ ordinal_suffix_spec 3"
    by (rule ordinal_String_suffix) simp
  also have "String_number 3 = decimal_string 3"
    by (rule String_number_safe) simp_all
  finally show ?thesis
    by (simp add: ordinal_suffix_spec_def decimal_string_def decimal_digits_one digit_char_def)
qed

theorem rank_lines_witness:
  "\<exists>lv. App_view sample_runtime Map.empty
       (initial_state\<lparr>step := Leaderboards,
          me := Some \<lparr>row_id = None, name = ''Ann'', age = None, gender = None,
            country = ''US'', time_seconds = Num (49 / 5), created_at = None, t_qr = None,
            rank_country = Some 3, rank_global = Some 0\<rparr>\<rparr>) = LeaderboardsView lv \<and>
     lv_country_rank lv = RankLine ''Your country rank: '' ''3rd'' \<and>
     (\<forall>label t. lv_global_rank lv \<noteq> RankLine label t)"
proof -
  let ?s = "initial_state\<lparr>step := Leaderboards,
          me := Some \<lparr>row_id = None, name = ''Ann'', age = None, gender = None,
            country = ''US'', time_seconds = Num (49 / 5), created_at = None, t_qr = None,
            rank_country = Some 3, rank_global = Some 0\<rparr>\<rparr>"
  have s: "step ?s = Leaderboards" by simp
  from rank_lines_iff_truthy [OF s, of sample_runtime Map.empty]
  have "\<exists>lv. App_view sample_runtime Map.empty ?s = LeaderboardsView lv \<and>
     (\<forall>label t. (lv_country_rank lv = RankLine label t) =
        (label = ''Your country rank: '' \<and> t = ''3rd'')) \<and>
     (\<forall>label t. lv_global_rank lv \<noteq> RankLine label t)"
    by (simp add: ordinal_3)
  then obtain lv where v: "App_view sample_runtime Map.empty ?s = LeaderboardsView lv"
    and c: "\<forall>label t. (lv_country_rank lv = RankLine label t) =
        (label = ''Your country rank: '' \<and> t = ''3rd'')"
    and g: "\<forall>label t. lv_global_rank lv \<noteq> RankLine label t"
    by (elim exE conjE)
  from c have c': "lv_country_rank lv = RankLine ''Your country rank: '' ''3rd''" by simp
  show ?thesis
    by (intro exI [of _ lv] conjI) (fact v, fact c', fact g)
qed

section \<open>The leaderboard table\<close>

lemma length_map_from: "length (map_from i f xs) = length xs"
  by (induction xs arbitrary: i) simp_all

lemma nth_map_from: "k < length xs \<Longrightarrow> map_from i f xs ! k = f (xs ! k) (i + k)"
proof (induction xs arbitrary: i k)
  case Nil
  then show ?case by simp
next
  case (Cons x xs)
  show ?case
  proof (cases k)
    case 0
    then show ?thesis by simp
  next
    case (Suc k')
    with Cons.prems have "k' < length xs" by simp
    from Cons.IH [OF this, of "Suc i"] Suc show ?thesis by simp
  qed
qed

lemma length_Table: "length (tbl_rows (Table rt title rows h)) = length rows"
  by (simp add: Table_def js_map_def length_map_from)

lemma nth_Table:
  "i < length rows \<Longrightarrow>
   tbl_rows (Table rt title rows h) ! i = table_row_of rt h (rows ! i) i"
  by (simp add: Table_def js_map_def nth_map_from)

lemma highlighted_table_row_of: "highlighted (table_row_of rt h r i) = isYou h r"
  by (simp add: highlighted_def table_row_of_def)

lemma strict_eq_not_NaN: "a \<noteq> NaN \<Longrightarrow> strict_eq a b = (a = b)"
  by (auto simp: strict_eq_def)

lemma isYou_fields:
  assumes "\<forall>m. h = Some m \<longrightarrow> time_seconds m \<noteq> NaN"
  shows "isYou h r =
    (\<exists>m. h = Some m \<and> name m = name r \<and> time_seconds m = time_seconds r \<and>
         country m = country r)"
proof (cases h)
  case None
  then show ?thesis by (simp add: isYou_def)
next
  case (Some m)
  with assms have "time_seconds m \<noteq> NaN" by simp
  with Some show ?thesis by (simp add: isYou_def strict_eq_not_NaN)
qed

lemma isYou_same_fields:
  "name r' = name r \<Longrightarrow> time_seconds r' = time_seconds r \<Longrightarrow> country r' = country r \<Longrightarrow>
   isYou h r' = isYou h r"
  by (cases h) (simp_all add: isYou_def)

text \<open>
  Claim C5. In every rendered leaderboard, a row is highlighted as the row of the current
  user if and only if its \<open>name\<close>, \<open>time_seconds\<close> and \<open>country\<close> all equal those of the
  \<open>MeRow\<close>; no identity field is consulted, so every row with the same three values is
  highlighted as well. (The rows and the \<open>MeRow\<close> are decoded from JSON, which has no \<open>NaN\<close>;
  \<open>NaN\<close> is the one number that \<^verbatim>\<open>===\<close> does not find equal to itself.)
\<close>

theorem highlight_iff_fields_equal:
  assumes "i < length rows"
    and "\<forall>m. highlight = Some m \<longrightarrow> time_seconds m \<noteq> NaN"
  shows "highlighted (tbl_rows (Table rt title rows highlight) ! i) =
      (\<exists>m. highlight = Some m \<and> name m = name (rows ! i) \<and>
           time_seconds m = time_seconds (rows ! i) \<and> country m = country (rows ! i)) \<and>
    (\<forall>j < length rows.
       name (rows ! j) = name (rows ! i) \<and> time_seconds (rows ! j) = time_seconds (rows ! i) \<and>
       country (rows ! j) = country (rows ! i) \<longrightarrow>
       highlighted (tbl_rows (Table rt title rows highlight) ! j) =
       highlighted (tbl_rows (Table rt title rows highlight) ! i))"
proof
  show "highlighted (tbl_rows (Table rt title rows highlight) ! i) =
      (\<exists>m. highlight = Some m \<and> name m = name (rows ! i) \<and>
           time_seconds m = time_seconds (rows ! i) \<and> country m = country (rows ! i))"
    by (simp only: nth_Table [OF assms(1)] highlighted_table_row_of isYou_fields [OF assms(2)])
next
  show "\<forall>j < length rows.
       name (rows ! j) = name (rows ! i) \<and> time_seconds (rows ! j) = time_seconds (rows ! i) \<and>
       country (rows ! j) = country (rows ! i) \<longrightarrow>
       highlighted (tbl_rows (Table rt title rows highlight) ! j) =
       highlighted (tbl_rows (Table rt title rows highlight) ! i)"
  proof (intro allI impI)
    fix j
    assume j: "j < length rows"
      and e: "name (rows ! j) = name (rows ! i) \<and>
        time_seconds (rows ! j) = time_seconds (rows ! i) \<and>
        country (rows ! j) = country (rows ! i)"
    from e have "isYou highlight (rows ! j) = isYou highlight (rows ! i)"
      by (intro isYou_same_fields) simp_all
    then show "highlighted (tbl_rows (Table rt title rows highlight) ! j) =
       highlighted (tbl_rows (Table rt title rows highlight) ! i)"
      by (simp only: nth_Table [OF assms(1)] nth_Table [OF j] highlighted_table_row_of)
  qed
qed

theorem highlight_witness:
  "highlighted (tbl_rows (Table sample_runtime ''Top'' example_rows (Some example_me)) ! 0) \<and>
   \<not> highlighted (tbl_rows (Table sample_runtime ''Top'' example_rows (Some example_me)) ! 1) \<and>
   highlighted (tbl_rows (Table sample_runtime ''Top'' example_rows (Some example_me)) ! 2)"
  using highlight_iff_fields_equal [where i = 0 and rows = example_rows and highlight = "Some example_me"
      and rt = sample_runtime and title = "''Top''"]
    highlight_iff_fields_equal [where i = 1 and rows = example_rows and highlight = "Some example_me"
      and rt = sample_runtime and title = "''Top''"]
    highlight_iff_fields_equal [where i = 2 and rows = example_rows and highlight = "Some example_me"
      and rt = sample_runtime and title = "''Top''"]
  by (simp add: example_rows_def example_me_def)

text \<open>
  Claim C9. The leaderboard renderer shows the rows in the order of the input array, each
  with the index of its position counted from 1 (no stored rank is used), without sorting or
  filtering; so rendering the same rows and highlight row again gives the same order and the
  same highlighting.
\<close>

theorem table_rows_in_input_order:
  "tbl_rows (Table rt title rows h) =
     map (\<lambda>(r, idx). table_row_of rt h r idx) (zip rows [0..<length rows]) \<and>
   length (tbl_rows (Table rt title rows h)) = length rows \<and>
   map td_index (tbl_rows (Table rt title rows h)) = [1..<Suc (length rows)] \<and>
   map td_name (tbl_rows (Table rt title rows h)) = map name rows \<and>
   map td_country (tbl_rows (Table rt title rows h)) = map country rows \<and>
   map td_time (tbl_rows (Table rt title rows h)) =
     map (\<lambda>r. rt_toFixed2 rt (time_seconds r)) rows \<and>
   map highlighted (tbl_rows (Table rt title rows h)) = map (isYou h) rows"
proof -
  have a: "tbl_rows (Table rt title rows h) =
     map (\<lambda>(r, idx). table_row_of rt h r idx) (zip rows [0..<length rows])"
    by (rule nth_equalityI) (simp_all add: length_Table nth_Table)
  have b: "map td_index (tbl_rows (Table rt title rows h)) = [1..<Suc (length rows)]"
    by (rule nth_equalityI)
      (simp_all add: length_Table nth_Table table_row_of_def del: upt_Suc)
  have c: "map td_name (tbl_rows (Table rt title rows h)) = map name rows"
    by (rule nth_equalityI) (simp_all add: length_Table nth_Table table_row_of_def)
  have d: "map td_country (tbl_rows (Table rt title rows h)) = map country rows"
    by (rule nth_equalityI) (simp_all add: length_Table nth_Table table_row_of_def)
  have e: "map td_time (tbl_rows (Table rt title rows h)) =
     map (\<lambda>r. rt_toFixed2 rt (time_seconds r)) rows"
    by (rule nth_equalityI) (simp_all add: length_Table nth_Table table_row_of_def)
  have f: "map highlighted (tbl_rows (Table rt title rows h)) = map (isYou h) rows"
    by (rule nth_equalityI) (simp_all add: length_Table nth_Table highlighted_table_row_of)
  from a b c d e f length_Table [of rt title rows h] show ?thesis by (simp only: simp_thms)
qed

theorem table_rows_witness:
  "map td_index (tbl_rows (Table sample_runtime ''Top'' example_rows (Some example_me))) =
     [1, 2, 3] \<and>
   map td_name (tbl_rows (Table sample_runtime ''Top'' example_rows (Some example_me))) =
     [''Ann'', ''Bob'', ''Ann''] \<and>
   map highlighted (tbl_rows (Table sample_runtime ''Top'' example_rows (Some example_me))) =
     [True, False, True] \<and>
   map td_index (tbl_rows (Table sample_runtime ''Top'' [example_me] (Some example_me))) = [1]"
proof -
  note r = table_rows_in_input_order [where rt = sample_runtime and title = "''Top''"
      and rows = example_rows and h = "Some example_me"]
  note m = table_rows_in_input_order [where rt = sample_runtime and title = "''Top''"
      and rows = "[example_me]" and h = "Some example_me"]
  have a: "map td_index (tbl_rows (Table sample_runtime ''Top'' example_rows (Some example_me))) =
     [1, 2, 3]"
    using r [THEN conjunct2, THEN conjunct2, THEN conjunct1]
    by (simp add: example_rows_def upt_rec)
  have b: "map td_name (tbl_rows (Table sample_runtime ''Top'' example_rows (Some example_me))) =
     [''Ann'', ''Bob'', ''Ann'']"
    using r [THEN conjunct2, THEN conjunct2, THEN conjunct2, THEN conjunct1]
    by (simp add: example_rows_def)
  have c: "map highlighted
      (tbl_rows (Table sample_runtime ''Top'' example_rows (Some example_me))) =
     [True, False, True]"
    using r [THEN conjunct2, THEN conjunct2, THEN conjunct2, THEN conjunct2, THEN conjunct2,
        THEN conjunct2]
    by (simp add: example_rows_def example_me_def isYou_def strict_eq_def)
  have d: "map td_index
      (tbl_rows (Table sample_runtime ''Top'' [example_me] (Some example_me))) = [1]"
    using m [THEN conjunct2, THEN conjunct2, THEN conjunct1]
    by (simp add: upt_rec)
  from a b c d show ?thesis by (simp only: simp_thms)
qed

section \<open>Failure of the registration request\<close>

lemma onSubmit_thrown:
  assumes "try_block (net (register_request rt qp (form s))) (submit_started s) =
    (Some e, submit_started s)"
  shows "onSubmit rt qp net s = s\<lparr>submitting := False, error := error_text e\<rparr>"
  using assms by (simp add: onSubmit_def submit_started_def)

lemma try_block_rejected: "try_block (Rejected e) s = (Some e, s)"
  by (simp add: try_block_def)

lemma try_block_not_ok:
  "\<not> res_ok res \<Longrightarrow> res_text res = Inr body \<Longrightarrow>
   try_block (Resolved res) s =
     (Some (JsError ''Error'' (if body = [] then ''Failed to register'' else body)), s)"
  by (simp add: try_block_def str_or_def)

lemma try_block_not_ok_text_fails:
  "\<not> res_ok res \<Longrightarrow> res_text res = Inl e \<Longrightarrow> try_block (Resolved res) s = (Some e, s)"
  by (simp add: try_block_def)

lemma try_block_parse_error:
  "res_ok res \<Longrightarrow> res_json res = Inl e \<Longrightarrow> try_block (Resolved res) s = (Some e, s)"
  by (simp add: try_block_def)

lemma try_block_null:
  "res_ok res \<Longrightarrow> res_json res = Inr (DataNull e) \<Longrightarrow>
   try_block (Resolved res) s = (Some e, s)"
  by (simp add: try_block_def)

lemma try_block_object:
  "res_ok res \<Longrightarrow> res_json res = Inr (DataObject m lc lg) \<Longrightarrow>
   try_block (Resolved res) s =
     (None, s\<lparr>me := m, lbCountry := rows_or_empty lc, lbGlobal := rows_or_empty lg,
              step := Leaderboards\<rparr>)"
  by (simp add: try_block_def)

lemma error_text_Error:
  "msg \<noteq> [] \<Longrightarrow> error_text (JsError n msg) = msg"
  by (simp add: error_text_def str_or_def)

lemma onSubmit_not_ok:
  assumes "net (register_request rt qp (form s)) = Resolved res"
    and "\<not> res_ok res" and "res_text res = Inr body"
  shows "onSubmit rt qp net s =
    s\<lparr>submitting := False, error := (if body = [] then ''Failed to register'' else body)\<rparr>"
proof -
  let ?msg = "if body = [] then ''Failed to register'' else body"
  have n: "?msg \<noteq> []" by simp
  have "try_block (net (register_request rt qp (form s))) (submit_started s) =
      (Some (JsError ''Error'' ?msg), submit_started s)"
    by (simp only: assms(1) try_block_not_ok [OF assms(2,3)])
  then have "onSubmit rt qp net s =
      s\<lparr>submitting := False, error := error_text (JsError ''Error'' ?msg)\<rparr>"
    by (rule onSubmit_thrown [where net = net])
  then show ?thesis by (simp only: error_text_Error [OF n])
qed

text \<open>
  Claim C3. On a response to the registration POST that is not a success, the error message
  shown is the text of the response body, or \<open>Failed to register\<close> when the body is empty;
  the view stays in the form step, \<open>me\<close> and the two leaderboards are unchanged, and
  \<open>submitting\<close> is reset to false, so that the submit control is enabled again.
\<close>

theorem failed_response_shows_body:
  assumes "net (register_request rt qp (form s)) = Resolved res"
    and "\<not> res_ok res" and "res_text res = Inr body"
    and "step s = Form"
  shows "error (onSubmit rt qp net s) = (if body = [] then ''Failed to register'' else body) \<and>
    step (onSubmit rt qp net s) = Form \<and>
    me (onSubmit rt qp net s) = me s \<and>
    lbCountry (onSubmit rt qp net s) = lbCountry s \<and>
    lbGlobal (onSubmit rt qp net s) = lbGlobal s \<and>
    submitting (onSubmit rt qp net s) = False \<and>
    (\<exists>fv. App_view rt qp (onSubmit rt qp net s) = FormView fv \<and>
       fv_error fv = Some (if body = [] then ''Failed to register'' else body) \<and>
       fv_submit_disabled fv = False \<and> fv_submit_label fv = ''Submit result'')"
proof -
  let ?msg = "if body = [] then ''Failed to register'' else body"
  let ?s' = "s\<lparr>submitting := False, error := ?msg\<rparr>"
  have e: "onSubmit rt qp net s = ?s'"
    using assms(1-3) by (rule onSubmit_not_ok [where net = net])
  let ?fv = "\<lparr>fv_hero = Hero rt (timeSec rt qp) (Some (countryName qp)) (qp ''localDT'')
                      (rankPreview ?s'),
     fv_error = Some ?msg, fv_submit_disabled = False, fv_submit_label = ''Submit result''\<rparr>"
  have v: "App_view rt qp ?s' = FormView ?fv"
    using assms(4) by (simp add: App_view_def)
  have x: "\<exists>fv. App_view rt qp ?s' = FormView fv \<and> fv_error fv = Some ?msg \<and>
       fv_submit_disabled fv = False \<and> fv_submit_label fv = ''Submit result''"
    by (rule exI [of _ ?fv]) (simp only: v form_view.simps simp_thms)
  show ?thesis
    unfolding e using assms(4) x by simp
qed

theorem failed_response_witness:
  "error (onSubmit sample_runtime Map.empty
      (\<lambda>req. Resolved \<lparr>res_ok = False, res_text = Inr ''duplicate entry'',
         res_json = Inl (JsError ''SyntaxError'' ''Unexpected token'')\<rparr>)
      initial_state) = ''duplicate entry'' \<and>
   step (onSubmit sample_runtime Map.empty
      (\<lambda>req. Resolved \<lparr>res_ok = False, res_text = Inr ''duplicate entry'',
         res_json = Inl (JsError ''SyntaxError'' ''Unexpected token'')\<rparr>)
      initial_state) = Form \<and>
   submitting (onSubmit sample_runtime Map.empty
      (\<lambda>req. Resolved \<lparr>res_ok = False, res_text = Inr ''duplicate entry'',
         res_json = Inl (JsError ''SyntaxError'' ''Unexpected token'')\<rparr>)
      initial_state) = False \<and>
   error (onSubmit sample_runtime Map.empty
      (\<lambda>req. Resolved \<lparr>res_ok = False, res_text = Inr [],
         res_json = Inl (JsError ''SyntaxError'' ''Unexpected token'')\<rparr>)
      initial_state) = ''Failed to register''"
proof -
  let ?dup = "\<lparr>res_ok = False, res_text = Inr ''duplicate entry'',
         res_json = Inl (JsError ''SyntaxError'' ''Unexpected token'')\<rparr>"
  let ?empty = "\<lparr>res_ok = False, res_text = Inr [],
         res_json = Inl (JsError ''SyntaxError'' ''Unexpected token'')\<rparr>"
  have f: "step initial_state = Form" by (simp add: initial_state_def)
  have a: "error (onSubmit sample_runtime Map.empty (\<lambda>req. Resolved ?dup) initial_state) =
      ''duplicate entry'' \<and>
    step (onSubmit sample_runtime Map.empty (\<lambda>req. Resolved ?dup) initial_state) = Form \<and>
    submitting (onSubmit sample_runtime Map.empty (\<lambda>req. Resolved ?dup) initial_state) = False"
    using failed_response_shows_body [where net = "\<lambda>req. Resolved ?dup" and rt = sample_runtime
        and qp = Map.empty and s = initial_state and res = ?dup and body = "''duplicate entry''"] f
    by simp
  have b: "error (onSubmit sample_runtime Map.empty (\<lambda>req. Resolved ?empty) initial_state) =
      ''Failed to register''"
    using failed_response_shows_body [where net = "\<lambda>req. Resolved ?empty" and rt = sample_runtime
        and qp = Map.empty and s = initial_state and res = ?empty and body = "[]"] f
    by simp
  from a b show ?thesis by (simp only: simp_thms)
qed

section \<open>No partial success\<close>

lemma onSubmit_success:
  assumes "net (register_request rt qp (form s)) = Resolved res"
    and "res_ok res" and "res_json res = Inr (DataObject m lc lg)"
  shows "onSubmit rt qp net s =
    s\<lparr>submitting := False, error := [], me := m, lbCountry := rows_or_empty lc,
      lbGlobal := rows_or_empty lg, step := Leaderboards\<rparr>"
  by (simp add: onSubmit_def assms(1) try_block_object [OF assms(2,3)] submit_started_def)

lemma results_kept_thrown:
  assumes "try_block (net (register_request rt qp (form s))) (submit_started s) =
    (Some e, submit_started s)"
  shows "results_kept s (onSubmit rt qp net s)"
  by (simp add: onSubmit_thrown [where net = net, OF assms] results_kept_def)

lemma results_kept_cases:
  "(\<exists>res m lc lg. r = Resolved res \<and> res_ok res \<and> res_json res = Inr (DataObject m lc lg)) \<or>
   (\<exists>e. try_block r s = (Some e, s))"
proof (cases r)
  case (Rejected e)
  then show ?thesis by (simp add: try_block_rejected)
next
  case (Resolved res)
  show ?thesis
  proof (cases "res_ok res")
    case False
    then show ?thesis
      using Resolved try_block_not_ok [of res] try_block_not_ok_text_fails [of res]
      by (cases "res_text res") simp_all
  next
    case True
    show ?thesis
    proof (cases "res_json res")
      case (Inl e)
      with True Resolved show ?thesis by (simp add: try_block_parse_error)
    next
      case (Inr d)
      with True Resolved show ?thesis
        by (cases d) (simp_all add: try_block_null)
    qed
  qed
qed

lemma results_kept_not_ok:
  assumes "net (register_request rt qp (form s)) = Resolved res" and "\<not> res_ok res"
  shows "results_kept s (onSubmit rt qp net s)"
proof (cases "res_text res")
  case (Inl e)
  show ?thesis
    by (rule results_kept_thrown [where net = net and e = e])
      (simp only: assms(1) try_block_not_ok_text_fails [OF assms(2) Inl])
next
  case (Inr body)
  show ?thesis
    by (rule results_kept_thrown
        [where net = net and e = "JsError ''Error'' (if body = [] then ''Failed to register'' else body)"])
      (simp only: assms(1) try_block_not_ok [OF assms(2) Inr])
qed

text \<open>
  Claim C4. After a successful registration response, \<open>me\<close>, \<open>leaderboard_country\<close> and
  \<open>leaderboard_global\<close> (an absent list taken as the empty list) are stored together and the
  view moves to the leaderboards step; on a failure of the submit flow (network error,
  response that is not a success, parse error, body \<open>null\<close>) none of the three is modified
  and the step stays as it was, the form step. There is no state in between.
\<close>

theorem no_partial_success:
  "(let req = register_request rt qp (form s); s' = onSubmit rt qp net s in
    (\<forall>res m lc lg.
       net req = Resolved res \<and> res_ok res \<and> res_json res = Inr (DataObject m lc lg) \<longrightarrow>
       me s' = m \<and>
       lbCountry s' = (case lc of None \<Rightarrow> [] | Some rows \<Rightarrow> rows) \<and>
       lbGlobal s' = (case lg of None \<Rightarrow> [] | Some rows \<Rightarrow> rows) \<and>
       step s' = Leaderboards) \<and>
    (\<forall>e. net req = Rejected e \<longrightarrow> results_kept s s') \<and>
    (\<forall>res. net req = Resolved res \<and> \<not> res_ok res \<longrightarrow> results_kept s s') \<and>
    (\<forall>res e. net req = Resolved res \<and> res_ok res \<and> res_json res = Inl e \<longrightarrow>
       results_kept s s') \<and>
    (\<forall>res e. net req = Resolved res \<and> res_ok res \<and> res_json res = Inr (DataNull e) \<longrightarrow>
       results_kept s s') \<and>
    (results_kept s s' \<or>
     (\<exists>res m lc lg.
        net req = Resolved res \<and> res_ok res \<and> res_json res = Inr (DataObject m lc lg) \<and>
        me s' = m \<and>
        lbCountry s' = (case lc of None \<Rightarrow> [] | Some rows \<Rightarrow> rows) \<and>
        lbGlobal s' = (case lg of None \<Rightarrow> [] | Some rows \<Rightarrow> rows) \<and>
        step s' = Leaderboards)))"
proof -
  let ?req = "register_request rt qp (form s)"
  let ?s' = "onSubmit rt qp net s"
  have ok: "me ?s' = m \<and>
       lbCountry ?s' = (case lc of None \<Rightarrow> [] | Some rows \<Rightarrow> rows) \<and>
       lbGlobal ?s' = (case lg of None \<Rightarrow> [] | Some rows \<Rightarrow> rows) \<and>
       step ?s' = Leaderboards"
    if "net ?req = Resolved res" "res_ok res" "res_json res = Inr (DataObject m lc lg)"
    for res m lc lg
    by (simp add: onSubmit_success [where net = net, OF that] rows_or_empty_def)
  have rej: "results_kept s ?s'" if "net ?req = Rejected e" for e
    by (rule results_kept_thrown [where net = net and e = e]) (simp only: that try_block_rejected)
  have nok: "results_kept s ?s'" if "net ?req = Resolved res" "\<not> res_ok res" for res
    using that by (rule results_kept_not_ok [where net = net])
  have perr: "results_kept s ?s'"
    if "net ?req = Resolved res" "res_ok res" "res_json res = Inl e" for res e
    by (rule results_kept_thrown [where net = net and e = e])
      (simp only: that(1) try_block_parse_error [OF that(2,3)])
  have nul: "results_kept s ?s'"
    if "net ?req = Resolved res" "res_ok res" "res_json res = Inr (DataNull e)" for res e
    by (rule results_kept_thrown [where net = net and e = e])
      (simp only: that(1) try_block_null [OF that(2,3)])
  have alt: "results_kept s ?s' \<or>
     (\<exists>res m lc lg.
        net ?req = Resolved res \<and> res_ok res \<and> res_json res = Inr (DataObject m lc lg) \<and>
        me ?s' = m \<and>
        lbCountry ?s' = (case lc of None \<Rightarrow> [] | Some rows \<Rightarrow> rows) \<and>
        lbGlobal ?s' = (case lg of None \<Rightarrow> [] | Some rows \<Rightarrow> rows) \<and>
        step ?s' = Leaderboards)"
  proof -
    from results_kept_cases [of "net ?req" "submit_started s"]
    show ?thesis
    proof
      assume "\<exists>res m lc lg. net ?req = Resolved res \<and> res_ok res \<and>
          res_json res = Inr (DataObject m lc lg)"
      then obtain res m lc lg where h: "net ?req = Resolved res" "res_ok res"
          "res_json res = Inr (DataObject m lc lg)"
        by (elim exE conjE)
      from ok [OF h] h have "\<exists>res m lc lg.
        net ?req = Resolved res \<and> res_ok res \<and> res_json res = Inr (DataObject m lc lg) \<and>
        me ?s' = m \<and>
        lbCountry ?s' = (case lc of None \<Rightarrow> [] | Some rows \<Rightarrow> rows) \<and>
        lbGlobal ?s' = (case lg of None \<Rightarrow> [] | Some rows \<Rightarrow> rows) \<and>
        step ?s' = Leaderboards"
        by (intro exI [of _ res] exI [of _ m] exI [of _ lc] exI [of _ lg]) simp
      then show ?thesis by (rule disjI2)
    next
      assume "\<exists>e. try_block (net ?req) (submit_started s) = (Some e, submit_started s)"
      then obtain e where "try_block (net ?req) (submit_started s) = (Some e, submit_started s)"
        by (elim exE)
      then have "results_kept s ?s'" by (rule results_kept_thrown [where net = net])
      then show ?thesis by (rule disjI1)
    qed
  qed
  have c1: "\<forall>res m lc lg.
       net ?req = Resolved res \<and> res_ok res \<and> res_json res = Inr (DataObject m lc lg) \<longrightarrow>
       me ?s' = m \<and>
       lbCountry ?s' = (case lc of None \<Rightarrow> [] | Some rows \<Rightarrow> rows) \<and>
       lbGlobal ?s' = (case lg of None \<Rightarrow> [] | Some rows \<Rightarrow> rows) \<and>
       step ?s' = Leaderboards"
    by (intro allI impI, elim conjE) (rule ok)
  have c2: "\<forall>e. net ?req = Rejected e \<longrightarrow> results_kept s ?s'"
    by (intro allI impI) (rule rej)
  have c3: "\<forall>res. net ?req = Resolved res \<and> \<not> res_ok res \<longrightarrow> results_kept s ?s'"
    by (intro allI impI, elim conjE) (rule nok)
  have c4: "\<forall>res e. net ?req = Resolved res \<and> res_ok res \<and> res_json res = Inl e \<longrightarrow>
       results_kept s ?s'"
    by (intro allI impI, elim conjE) (rule perr)
  have c5: "\<forall>res e. net ?req = Resolved res \<and> res_ok res \<and>
       res_json res = Inr (DataNull e) \<longrightarrow> results_kept s ?s'"
    by (intro allI impI, elim conjE) (rule nul)
  show ?thesis
    unfolding Let_def
    by (intro conjI) (fact c1, fact c2, fact c3, fact c4, fact c5, fact alt)
qed

theorem no_partial_success_witness:
  "me (onSubmit sample_runtime Map.empty (\<lambda>req. Resolved example_response) initial_state) =
     Some example_me \<and>
   lbCountry (onSubmit sample_runtime Map.empty (\<lambda>req. Resolved example_response)
     initial_state) = example_rows \<and>
   lbGlobal (onSubmit sample_runtime Map.empty (\<lambda>req. Resolved example_response)
     initial_state) = [] \<and>
   step (onSubmit sample_runtime Map.empty (\<lambda>req. Resolved example_response)
     initial_state) = Leaderboards \<and>
   results_kept initial_state
     (onSubmit sample_runtime Map.empty
        (\<lambda>req. Rejected (JsError ''TypeError'' ''Failed to fetch'')) initial_state) \<and>
   results_kept initial_state
     (onSubmit sample_runtime Map.empty
        (\<lambda>req. Resolved \<lparr>res_ok = True, res_text = Inr ''<html>'',
           res_json = Inl (JsError ''SyntaxError'' ''Unexpected token'')\<rparr>) initial_state)"
proof -
  have a: "me (onSubmit sample_runtime Map.empty (\<lambda>req. Resolved example_response)
        initial_state) = Some example_me \<and>
      lbCountry (onSubmit sample_runtime Map.empty (\<lambda>req. Resolved example_response)
        initial_state) = example_rows \<and>
      lbGlobal (onSubmit sample_runtime Map.empty (\<lambda>req. Resolved example_response)
        initial_state) = [] \<and>
      step (onSubmit sample_runtime Map.empty (\<lambda>req. Resolved example_response)
        initial_state) = Leaderboards"
    using no_partial_success [where net = "\<lambda>req. Resolved example_response"
        and rt = sample_runtime and qp = Map.empty and s = initial_state]
    by (simp add: Let_def example_response_def)
  have b: "results_kept initial_state
     (onSubmit sample_runtime Map.empty
        (\<lambda>req. Rejected (JsError ''TypeError'' ''Failed to fetch'')) initial_state)"
    using no_partial_success
      [where net = "\<lambda>req. Rejected (JsError ''TypeError'' ''Failed to fetch'')"
        and rt = sample_runtime and qp = Map.empty and s = initial_state]
    by (simp add: Let_def)
  have c: "results_kept initial_state
     (onSubmit sample_runtime Map.empty
        (\<lambda>req. Resolved \<lparr>res_ok = True, res_text = Inr ''<html>'',
           res_json = Inl (JsError ''SyntaxError'' ''Unexpected token'')\<rparr>) initial_state)"
    using no_partial_success
      [where net = "\<lambda>req. Resolved \<lparr>res_ok = True, res_text = Inr ''<html>'',
           res_json = Inl (JsError ''SyntaxError'' ''Unexpected token'')\<rparr>"
        and rt = sample_runtime and qp = Map.empty and s = initial_state]
    by (simp add: Let_def)
  from a b c show ?thesis by (simp only: simp_thms)
qed

end
